theory Spec2Isabelle
  imports Complex_Main "HOL-Library.Word" "HOL-Library.AList"
begin

section \<open>n9ml types (types.ts)\<close>

text \<open>The interfaces of types.ts. Numbers that the code only ever fills with integers
  (complexity, layers, parameters) are integers. Three fields are renamed because their
  names are taken: \<open>method\<close> is \<open>quant_method\<close>, the \<open>id\<close> of a tensor is
  \<open>tensor_id\<close>, and further down \<open>precision\<close> of the traits is \<open>trait_precision\<close>,
  \<open>intent\<close> and \<open>architecture\<close> of a spawn request are \<open>spawn_intent\<close> and
  \<open>repo_architecture\<close>.\<close>

datatype precision = High | Medium | Low

record CognitiveIntent =
  domain :: string
  task :: string
  precision :: precision
  realtime :: bool
  complexity :: int

datatype bitwidth = B8 | B16 | B32

datatype quantization_method = Linear | Dynamic | Adaptive

record QuantizationStrategy =
  bits :: bitwidth
  quant_method :: quantization_method
  preserveAccuracy :: bool

datatype arch_type = Transformer | Cnn | Rnn | Hybrid

datatype optimization = Speed | Memory | Accuracy

record Architecture =
  type :: arch_type
  layers :: int
  parameters :: int
  optimization :: optimization

text \<open>What the code throws: \<open>Error('Invalid path: must contain at least domain and task')\<close>
  and \<open>Error('Maximum recursion depth N exceeded')\<close>, the latter with the depth N.\<close>

datatype error = InvalidPathError | RecursionLimitError int

section \<open>Path utilities (utils.ts)\<close>

text \<open>\<open>s.split(c)\<close> for a one-character separator: the pieces between the separators,
  empty pieces included; the empty string splits into one empty piece.\<close>

fun split_on :: "char \<Rightarrow> string \<Rightarrow> string list" where
  "split_on c [] = [[]]"
| "split_on c (x # xs) =
     (if x = c then [] # split_on c xs
      else (case split_on c xs of [] \<Rightarrow> [[x]] | w # ws \<Rightarrow> (x # w) # ws))"

text \<open>\<open>s.indexOf(sub) !== -1\<close> on strings: \<open>sub\<close> occurs in \<open>s\<close> as a contiguous piece.\<close>

fun str_includes :: "string \<Rightarrow> string \<Rightarrow> bool" where
  "str_includes [] sub = (sub = [])"
| "str_includes (c # cs) sub = (take (length sub) (c # cs) = sub \<or> str_includes cs sub)"

definition clamp_complexity :: "int \<Rightarrow> int" where
  "clamp_complexity c = max 1 (min 10 c)"

definition parsePath :: "string \<Rightarrow> error + CognitiveIntent" where
  "parsePath path =
     (let parts = filter (\<lambda>p. p \<noteq> []) (split_on CHR ''/'' path) in
      if length parts < 2 then Inl InvalidPathError
      else
        let skip = (length parts \<ge> 3 \<and> (parts ! 0 = ''models'' \<or> parts ! 0 = ''inference''));
            rest = (if skip then drop 1 parts else parts);
            dom = rest ! 0;
            tsk = rest ! 1;
            modifiers = drop 2 rest;
            prec = (if str_includes tsk ''precise'' \<or> ''precise'' \<in> set modifiers \<or> ''high'' \<in> set modifiers
                    then High
                    else if str_includes tsk ''fast'' \<or> ''fast'' \<in> set modifiers \<or> ''low'' \<in> set modifiers
                    then Low else Medium);
            rt = (str_includes tsk ''realtime'' \<or> ''realtime'' \<in> set modifiers \<or> str_includes tsk ''live'');
            c0 = (5::int);
            c1 = (if dom = ''vision'' then c0 + 2 else c0);
            c2 = (if dom = ''nlp'' then c1 + 3 else c1);
            c3 = (if str_includes tsk ''generation'' then c2 + 2 else c2);
            c4 = (if prec = High then c3 + 2 else c3);
            c5 = (if rt then c4 - 1 else c4)
        in Inr \<lparr>domain = dom, task = tsk, precision = prec, realtime = rt,
                 complexity = clamp_complexity c5\<rparr>)"

definition optimizeQuantization :: "CognitiveIntent \<Rightarrow> QuantizationStrategy" where
  "optimizeQuantization intent =
     (let q0 = \<lparr>bits = B16, quant_method = Dynamic, preserveAccuracy = True\<rparr>;
          q1 = (if precision intent = High
                then q0\<lparr>bits := B32, quant_method := Adaptive\<rparr>
                else if precision intent = Low \<or> realtime intent
                then q0\<lparr>bits := B8, quant_method := Linear, preserveAccuracy := False\<rparr>
                else q0);
          q2 = (if domain intent = ''vision'' \<and> realtime intent
                then q1\<lparr>bits := B8, quant_method := Linear\<rparr>
                else q1)
      in q2)"

definition collapseQuantumField :: "CognitiveIntent \<Rightarrow> QuantizationStrategy \<Rightarrow> Architecture" where
  "collapseQuantumField intent quant =
     (let ty = (if domain intent = ''vision'' then Cnn
                else if domain intent = ''sequence'' \<or> str_includes (task intent) ''time'' then Rnn
                else if domain intent = ''nlp'' then Transformer
                else if complexity intent > 7 \<and> domain intent = ''multimodal'' then Hybrid
                else Transformer);
          opt = (if realtime intent \<or> bits quant = B8 then Speed
                 else if bits quant = B16 then Memory
                 else Accuracy);
          lay = max 2 ((complexity intent * 3) div 2);
          par = (if complexity intent + 10 \<ge> 0 then 2 ^ nat (complexity intent + 10) else 0)
      in \<lparr>type = ty, layers = lay, parameters = par, optimization = opt\<rparr>)"

section \<open>Typed arrays and tensors\<close>

text \<open>A typed array is a mutable object: it lives in a store, and a tensor holds its
  address. Allocation appends to the store, so an address is an index into it. No method
  of the classes modelled here assigns to a field of a Tensor object or writes into a
  shape array, so Tensor objects and shapes are values (a remounted tensor shares the
  shape array of its source).

  Numbers are modelled as reals. The only rounding kept is the store into a Float32Array,
  which is the parameter \<open>fround\<close>; stores into integer arrays truncate towards zero
  and wrap modulo the width, as the language prescribes. Not-a-number and infinite
  elements are not modelled.\<close>

datatype buffer =
    Float32Array "real list"
  | Uint8Array "8 word list"
  | Uint16Array "16 word list"

datatype dtype = Float32 | Uint8 | Uint16

type_synonym addr = nat
type_synonym heap = "buffer list"

record Tensor =
  tensor_id :: string
  data :: addr
  shape :: "nat list"
  dtype :: dtype
  architecture :: Architecture
  quantization :: QuantizationStrategy

definition alloc :: "heap \<Rightarrow> buffer \<Rightarrow> addr \<times> heap" where
  "alloc h b = (length h, h @ [b])"

text \<open>A reference always points to an object; the empty array for an address outside the
  store only makes the function total.\<close>

definition deref :: "heap \<Rightarrow> addr \<Rightarrow> buffer" where
  "deref h a = (if a < length h then h ! a else Float32Array [])"

text \<open>\<open>buf[i]\<close> for every index: the elements as numbers.\<close>

fun elems :: "buffer \<Rightarrow> real list" where
  "elems (Float32Array xs) = xs"
| "elems (Uint8Array ws) = map (\<lambda>w. real (unat w)) ws"
| "elems (Uint16Array ws) = map (\<lambda>w. real (unat w)) ws"

definition js_trunc :: "real \<Rightarrow> int" where
  "js_trunc v = (if 0 \<le> v then \<lfloor>v\<rfloor> else \<lceil>v\<rceil>)"

text \<open>\<open>Math.round\<close>: the nearest integer, a half going up.\<close>

definition js_round :: "real \<Rightarrow> int" where
  "js_round v = \<lfloor>v + 1 / 2\<rfloor>"

text \<open>Stores into a Uint8Array and a Uint16Array: truncate, then wrap.\<close>

definition toUint8 :: "real \<Rightarrow> 8 word" where
  "toUint8 v = word_of_int (js_trunc v)"

definition toUint16 :: "real \<Rightarrow> 16 word" where
  "toUint16 v = word_of_int (js_trunc v)"

definition digit_char :: "nat \<Rightarrow> char" where
  "digit_char d = ''0123456789'' ! d"

fun show_nat :: "nat \<Rightarrow> string" where
  "show_nat n = (if n < 10 then [digit_char n] else show_nat (n div 10) @ [digit_char (n mod 10)])"

declare show_nat.simps [simp del]

section \<open>Tensor field (cognitive-quantum-field.ts)\<close>

text \<open>The mount table. The catalogue \<open>quantumStates\<close> is constant after construction and
  is read by \<open>getQuantumStates\<close> only; it is left out.\<close>

record CognitiveQuantumField =
  mountedTensors :: "string \<rightharpoonup> Tensor"

text \<open>\<open>createTensor\<close>: \<open>rnd i\<close> is the value of the i-th call of \<open>Math.random()\<close> in the
  fill loop, \<open>now\<close> the clock and \<open>suffix\<close> the random token of the id.\<close>

definition createTensor ::
  "(real \<Rightarrow> real) \<Rightarrow> (nat \<Rightarrow> real) \<Rightarrow> nat \<Rightarrow> string \<Rightarrow> heap \<Rightarrow> Architecture \<Rightarrow>
   QuantizationStrategy \<Rightarrow> string \<Rightarrow> Tensor \<times> heap" where
  "createTensor fround rnd now suffix h arch quant path =
     (let dt = (if bits quant = B32 then Float32 else if bits quant = B16 then Uint16 else Uint8);
          buf = (if bits quant = B32 then Float32Array (map (\<lambda>i. fround (rnd i * 1)) [0..<1024])
                 else if bits quant = B16
                 then Uint16Array (map (\<lambda>i. toUint16 (rnd i * (2 ^ 16 - 1))) [0..<1024])
                 else Uint8Array (map (\<lambda>i. toUint8 (rnd i * (2 ^ 8 - 1))) [0..<1024]));
          (a, h') = alloc h buf
      in (\<lparr>tensor_id = ''tensor_'' @ show_nat now @ ''_'' @ suffix, data = a, shape = [32, 32],
            dtype = dt, architecture = arch, quantization = quant\<rparr>, h'))"

definition mount ::
  "(real \<Rightarrow> real) \<Rightarrow> (nat \<Rightarrow> real) \<Rightarrow> nat \<Rightarrow> string \<Rightarrow> heap \<Rightarrow> CognitiveQuantumField \<Rightarrow>
   string \<Rightarrow> error + (Tensor \<times> heap \<times> CognitiveQuantumField)" where
  "mount fround rnd now suffix h field path =
     (case parsePath path of
        Inl e \<Rightarrow> Inl e
      | Inr intent \<Rightarrow>
          let quant = optimizeQuantization intent;
              arch = collapseQuantumField intent quant;
              (tensor, h') = createTensor fround rnd now suffix h arch quant path
          in Inr (tensor, h', field\<lparr>mountedTensors := (mountedTensors field)(path \<mapsto> tensor)\<rparr>))"

text \<open>\<open>reinterpretTensor\<close>: the branch is chosen by the new bit width and the dtype field of
  the source; the elements are read from the source's array whatever its class. Every
  branch allocates the array it fills (\<open>slice()\<close> in the last one).\<close>

definition reinterpretTensor ::
  "(real \<Rightarrow> real) \<Rightarrow> nat \<Rightarrow> heap \<Rightarrow> Tensor \<Rightarrow> Architecture \<Rightarrow> QuantizationStrategy \<Rightarrow> string \<Rightarrow>
   Tensor \<times> heap" where
  "reinterpretTensor fround now h originalTensor newArchitecture newQuantization newPath =
     (let src = deref h (data originalTensor);
          vs = elems src;
          (dt, buf) =
            (if bits newQuantization = B32 \<and> dtype originalTensor \<noteq> Float32 then
               let maxVal = (if dtype originalTensor = Uint16 then 65535 else 255)
               in (Float32, Float32Array (map (\<lambda>v. fround (v / maxVal)) vs))
             else if bits newQuantization = B16 \<and> dtype originalTensor \<noteq> Uint16 then
               (Uint16,
                if dtype originalTensor = Float32
                then Uint16Array (map (\<lambda>v. toUint16 (real_of_int (js_round (v * 65535)))) vs)
                else Uint16Array (map (\<lambda>v. toUint16 (v * 257)) vs))
             else if bits newQuantization = B8 \<and> dtype originalTensor \<noteq> Uint8 then
               (Uint8,
                if dtype originalTensor = Float32
                then Uint8Array (map (\<lambda>v. toUint8 (real_of_int (js_round (v * 255)))) vs)
                else Uint8Array (map (\<lambda>v. toUint8 (real_of_int (js_round (v / 257)))) vs))
             else (dtype originalTensor, src));
          (a, h') = alloc h buf
      in (\<lparr>tensor_id = ''reinterpreted_'' @ tensor_id originalTensor @ ''_'' @ show_nat now,
            data = a, shape = shape originalTensor, dtype = dt,
            architecture = newArchitecture, quantization = newQuantization\<rparr>, h'))"

definition remount ::
  "(real \<Rightarrow> real) \<Rightarrow> nat \<Rightarrow> heap \<Rightarrow> CognitiveQuantumField \<Rightarrow> Tensor \<Rightarrow> string \<Rightarrow>
   error + (Tensor \<times> heap \<times> CognitiveQuantumField)" where
  "remount fround now h field tensor newPath =
     (case parsePath newPath of
        Inl e \<Rightarrow> Inl e
      | Inr newIntent \<Rightarrow>
          let newQuant = optimizeQuantization newIntent;
              newArch = collapseQuantumField newIntent newQuant;
              (reinterpretedTensor, h') =
                 reinterpretTensor fround now h tensor newArch newQuant newPath
          in Inr (reinterpretedTensor, h',
                  field\<lparr>mountedTensors := (mountedTensors field)(newPath \<mapsto> reinterpretedTensor)\<rparr>))"

definition unmount :: "CognitiveQuantumField \<Rightarrow> string \<Rightarrow> bool \<times> CognitiveQuantumField" where
  "unmount field path =
     (case mountedTensors field path of
        Some t \<Rightarrow> (True, field\<lparr>mountedTensors := (mountedTensors field)(path := None)\<rparr>)
      | None \<Rightarrow> (False, field))"

definition getMountedTensors :: "CognitiveQuantumField \<Rightarrow> (string \<rightharpoonup> Tensor)" where
  "getMountedTensors field = mountedTensors field"

text \<open>A remount followed by a remount of its result, and the array the second one yields.\<close>

definition remount_twice ::
  "(real \<Rightarrow> real) \<Rightarrow> nat \<Rightarrow> nat \<Rightarrow> heap \<Rightarrow> CognitiveQuantumField \<Rightarrow> Tensor \<Rightarrow> string \<Rightarrow> string \<Rightarrow>
   error + (Tensor \<times> heap \<times> CognitiveQuantumField)" where
  "remount_twice fround now1 now2 h field src p1 p2 =
     (case remount fround now1 h field src p1 of
        Inl e \<Rightarrow> Inl e
      | Inr (t1, h1, field1) \<Rightarrow> remount fround now2 h1 field1 t1 p2)"

definition roundtrip_data ::
  "(real \<Rightarrow> real) \<Rightarrow> nat \<Rightarrow> nat \<Rightarrow> heap \<Rightarrow> CognitiveQuantumField \<Rightarrow> Tensor \<Rightarrow> string \<Rightarrow> string \<Rightarrow>
   error + buffer" where
  "roundtrip_data fround now1 now2 h field src p1 p2 =
     (case remount_twice fround now1 now2 h field src p1 p2 of
        Inl e \<Rightarrow> Inl e
      | Inr (t, h', field') \<Rightarrow> Inr (deref h' (data t)))"

section \<open>Numbers with not-a-number and infinities\<close>

text \<open>The similarity computation divides, so its numbers carry the two infinities and
  not-a-number. Finite values are reals; signed zeros are not modelled, and the sums and
  products of the similarity computation are not rounded.\<close>

datatype jsnum = Fin real | PInf | NInf | NaN

fun jneg :: "jsnum \<Rightarrow> jsnum" where
  "jneg (Fin x) = Fin (- x)"
| "jneg PInf = NInf"
| "jneg NInf = PInf"
| "jneg NaN = NaN"

fun jadd :: "jsnum \<Rightarrow> jsnum \<Rightarrow> jsnum" where
  "jadd NaN _ = NaN"
| "jadd _ NaN = NaN"
| "jadd (Fin x) (Fin y) = Fin (x + y)"
| "jadd PInf NInf = NaN"
| "jadd NInf PInf = NaN"
| "jadd PInf _ = PInf"
| "jadd _ PInf = PInf"
| "jadd NInf _ = NInf"
| "jadd _ NInf = NInf"

definition jsub :: "jsnum \<Rightarrow> jsnum \<Rightarrow> jsnum" where
  "jsub a b = jadd a (jneg b)"

text \<open>The sign of a number that is not NaN: -1, 0 or 1.\<close>

fun jsign :: "jsnum \<Rightarrow> int" where
  "jsign (Fin x) = (if x < 0 then - 1 else if x = 0 then 0 else 1)"
| "jsign PInf = 1"
| "jsign NInf = - 1"
| "jsign NaN = 0"

fun jmul :: "jsnum \<Rightarrow> jsnum \<Rightarrow> jsnum" where
  "jmul NaN _ = NaN"
| "jmul _ NaN = NaN"
| "jmul (Fin x) (Fin y) = Fin (x * y)"
| "jmul a b =
     (if jsign a * jsign b = 0 then NaN else if jsign a * jsign b > 0 then PInf else NInf)"

fun jdiv :: "jsnum \<Rightarrow> jsnum \<Rightarrow> jsnum" where
  "jdiv NaN _ = NaN"
| "jdiv _ NaN = NaN"
| "jdiv (Fin x) (Fin y) =
     (if y = 0 then (if x = 0 then NaN else if 0 < x then PInf else NInf) else Fin (x / y))"
| "jdiv (Fin x) _ = Fin 0"
| "jdiv a (Fin y) = (if jsign a * (if y < 0 then - 1 else 1) > 0 then PInf else NInf)"
| "jdiv _ _ = NaN"

fun jsqrt :: "jsnum \<Rightarrow> jsnum" where
  "jsqrt (Fin x) = (if x < 0 then NaN else Fin (sqrt x))"
| "jsqrt PInf = PInf"
| "jsqrt NInf = NaN"
| "jsqrt NaN = NaN"

text \<open>\<open>a > b\<close>: false as soon as one side is NaN.\<close>

fun jgt :: "jsnum \<Rightarrow> jsnum \<Rightarrow> bool" where
  "jgt NaN _ = False"
| "jgt _ NaN = False"
| "jgt (Fin x) (Fin y) = (y < x)"
| "jgt PInf PInf = False"
| "jgt PInf _ = True"
| "jgt _ PInf = False"
| "jgt NInf _ = False"
| "jgt _ NInf = True"

text \<open>\<open>a >= b\<close>, false as well when one side is NaN.\<close>

fun jge :: "jsnum \<Rightarrow> jsnum \<Rightarrow> bool" where
  "jge NaN _ = False"
| "jge _ NaN = False"
| "jge (Fin x) (Fin y) = (y \<le> x)"
| "jge PInf _ = True"
| "jge _ NInf = True"
| "jge _ _ = False"

text \<open>\<open>Math.min\<close>: NaN as soon as one side is NaN.\<close>

fun jmin :: "jsnum \<Rightarrow> jsnum \<Rightarrow> jsnum" where
  "jmin NaN _ = NaN"
| "jmin _ NaN = NaN"
| "jmin a b = (if jgt a b then b else a)"

text \<open>The traits are doubles, and a product of doubles is rounded to a double. \<open>dround\<close>
  stands for that rounding (binary64, to nearest): it takes the exact product to the
  double stored, which is an infinity when the product is out of range. The decimal
  literals of the code are the doubles nearest to them.\<close>

definition dmul :: "(real \<Rightarrow> jsnum) \<Rightarrow> jsnum \<Rightarrow> jsnum \<Rightarrow> jsnum" where
  "dmul dround a b = (case jmul a b of Fin x \<Rightarrow> dround x | y \<Rightarrow> y)"

definition double_1_1 :: real where
  "double_1_1 = 2476979795053773 / 2251799813685248"

definition double_1_2 :: real where
  "double_1_2 = 5404319552844595 / 4503599627370496"

definition double_1_05 :: real where
  "double_1_05 = 4728779608739021 / 4503599627370496"

definition double_1_15 :: real where
  "double_1_15 = 2589569785738035 / 2251799813685248"

text \<open>Rounding to binary64, to nearest with ties to even. \<open>rne\<close> rounds a real to an
  integer that way. \<open>b64_exponent\<close> is the exponent of the binade of a non-negative real,
  from -1022 (which also serves the subnormals) to 1023; the search goes up from -1022 as
  long as the next power of two is not above the number. \<open>b64_value\<close> rounds the
  significand to 53 bits at that exponent, and \<open>binary64\<close> overflows to an infinity
  when the rounded value reaches 2 to the 1024.\<close>

definition rne :: "real \<Rightarrow> int" where
  "rne q = (let f = \<lfloor>q\<rfloor> in
            if q - of_int f < 1 / 2 then f
            else if 1 / 2 < q - of_int f then f + 1
            else if even f then f else f + 1)"

fun exp_search :: "real \<Rightarrow> int \<Rightarrow> nat \<Rightarrow> int" where
  "exp_search x e 0 = e"
| "exp_search x e (Suc k) = (if power_int 2 (e + 1) \<le> x then exp_search x (e + 1) k else e)"

definition b64_exponent :: "real \<Rightarrow> int" where
  "b64_exponent x = exp_search x (- 1022) 2045"

definition b64_value :: "real \<Rightarrow> real" where
  "b64_value x = of_int (rne (x / power_int 2 (b64_exponent x - 52)))
                   * power_int 2 (b64_exponent x - 52)"

definition binary64 :: "real \<Rightarrow> jsnum" where
  "binary64 x =
     (if 0 \<le> x then (if 2 ^ 1024 \<le> b64_value x then PInf else Fin (b64_value x))
      else (if 2 ^ 1024 \<le> b64_value (- x) then NInf else Fin (- b64_value (- x))))"

text \<open>The least normal double and the greatest double.\<close>

definition b64_min_normal :: real where
  "b64_min_normal = power_int 2 (- 1022)"

definition b64_max :: real where
  "b64_max = (2 ^ 53 - 1) * power_int 2 971"

text \<open>What the theorems below use of the rounding, with \<open>lo\<close> the least normal double and
  \<open>hi\<close> the greatest double: it is monotone, it leaves a double as it is, its relative
  error on the normal range is at most 2 to the -53, and a product of the greatest double
  and 1.1 or more overflows to infinity.\<close>

definition binary64_like :: "(real \<Rightarrow> jsnum) \<Rightarrow> real \<Rightarrow> real \<Rightarrow> bool" where
  "binary64_like dround lo hi =
     (0 < lo \<and> lo \<le> hi
      \<and> (\<forall>x y. x \<le> y \<longrightarrow> jge (dround y) (dround x))
      \<and> (\<forall>x y. dround x = Fin y \<longrightarrow> dround y = Fin y)
      \<and> (\<forall>x. lo \<le> x \<and> x \<le> hi \<longrightarrow> (\<exists>y. dround x = Fin y \<and> \<bar>y - x\<bar> \<le> x / 2 ^ 53))
      \<and> dround hi = Fin hi
      \<and> (\<forall>x. hi * double_1_1 \<le> x \<longrightarrow> dround x = PInf))"

text \<open>Two invariants of the stored rate used in the proofs. \<open>stored_at_least\<close>: the
  value is infinity or a double not below \<open>r\<close>. \<open>grown_to\<close>: after \<open>n\<close> roundings of a
  product with 1.1 the value is infinity or a double that has grown by the factor
  \<open>growth\<close> each time, as long as that stayed below the greatest double.\<close>

definition growth :: real where
  "growth = double_1_1 * (1 - 1 / 2 ^ 53)"

definition stored_at_least :: "(real \<Rightarrow> jsnum) \<Rightarrow> real \<Rightarrow> jsnum \<Rightarrow> bool" where
  "stored_at_least dround r a = (a = PInf \<or> (\<exists>y. a = Fin y \<and> r \<le> y \<and> dround y = Fin y))"

definition grown_to :: "(real \<Rightarrow> jsnum) \<Rightarrow> real \<Rightarrow> real \<Rightarrow> nat \<Rightarrow> jsnum \<Rightarrow> bool" where
  "grown_to dround hi r0 n a =
     (a = PInf \<or> (\<exists>y. a = Fin y \<and> dround y = Fin y \<and> r0 \<le> y
                      \<and> min hi (r0 * growth ^ n) \<le> y \<and> (\<forall>m<n. r0 * growth ^ m < hi)))"

section \<open>Persona agent: state (persona-agent.ts)\<close>

record PersonaTensor =
  cognitiveModules :: Tensor
  memoryKernel :: Tensor
  taskOrchestrator :: Tensor
  autonomyCore :: Tensor

record PersonaTraits =
  creativity :: jsnum
  trait_precision :: jsnum
  recursionDepth :: int
  adaptationRate :: jsnum
  boltIntegration :: bool

type_synonym embedding = "real list"

text \<open>A \<open>Map\<close> keeps its keys in insertion order: \<open>set\<close> on a present key replaces the value
  in place, on a new key it appends (\<open>AList.update\<close>); \<open>delete\<close> removes the key
  (\<open>AList.delete\<close>).\<close>

record RAGMemoryState =
  embeddings :: "(string \<times> embedding) list"
  contextWindow :: "string list"
  semanticGraph :: "(string \<times> string list) list"
  retrievalThreshold :: real

datatype repo_architecture = Frontend | Backend | Fullstack | AiAgent

record RepoSpawnRequest =
  spawn_intent :: string
  technologies :: "string list"
  repo_architecture :: repo_architecture
  parentRepo :: "string option"
  recursionLevel :: int

record observation =
  observed_intent :: string
  observed_context :: "string list"
  observed_cognitiveIntent :: CognitiveIntent
  observed_timestamp :: nat

record orientation =
  oriented_cognitiveIntent :: CognitiveIntent
  contextEmbeddings :: "embedding list"
  oriented_timestamp :: nat

record decision =
  shouldSpawnRepo :: bool
  spawnRequests :: "RepoSpawnRequest list"
  responseType :: string
  decision_complexity :: int
  decision_timestamp :: nat

record memory_updates =
  newEmbeddings :: nat
  updatedContexts :: nat
  graphExtensions :: nat

record exec_result =
  response :: string
  result_spawnedRepos :: "RepoSpawnRequest list option"
  memoryUpdates :: "memory_updates option"
  result_timestamp :: nat

record OODALoopState =
  observe :: "observation option"
  orient :: "orientation option"
  decide :: "decision option"
  act :: "exec_result option"

record GGMLPersonaAgent =
  quantumField :: CognitiveQuantumField
  personaTensors :: PersonaTensor
  traits :: PersonaTraits
  ragMemory :: RAGMemoryState
  oodaLoop :: OODALoopState
  spawnedRepos :: "(string \<times> RepoSpawnRequest) list"
  selfModel :: Tensor

text \<open>What the agent reads from outside: \<open>random w i\<close> is the value of the i-th coming
  call of \<open>Math.random()\<close>, \<open>clock w i\<close> that of the i-th coming call of \<open>Date.now()\<close>.
  A call takes the head and shifts the sequence.\<close>

record world =
  random :: "nat \<Rightarrow> real"
  clock :: "nat \<Rightarrow> nat"

definition date_now :: "world \<Rightarrow> nat \<times> world" where
  "date_now w = (clock w 0, w\<lparr>clock := \<lambda>i. clock w (Suc i)\<rparr>)"

definition math_random :: "world \<Rightarrow> real \<times> world" where
  "math_random w = (random w 0, w\<lparr>random := \<lambda>i. random w (Suc i)\<rparr>)"

section \<open>Persona agent: memory and retrieval\<close>

text \<open>\<open>generateEmbedding\<close> ignores its text: 384 calls of \<open>Math.random()\<close>, each scaled to
  [-1, 1) and stored into a Float32Array. The agent never writes into an embedding after
  that, so embeddings are values.\<close>

definition generateEmbedding :: "(real \<Rightarrow> real) \<Rightarrow> world \<Rightarrow> string \<Rightarrow> embedding \<times> world" where
  "generateEmbedding fround w text =
     (map (\<lambda>i. fround (random w i * 2 - 1)) [0..<384], w\<lparr>random := \<lambda>i. random w (i + 384)\<rparr>)"

text \<open>The loop of \<open>cosineSimilarity\<close> runs over the indices of \<open>a\<close>; \<open>b[i]\<close> beyond the end
  of \<open>b\<close> is \<open>undefined\<close>, which is NaN in arithmetic.\<close>

fun cosine_loop :: "jsnum \<times> jsnum \<times> jsnum \<Rightarrow> real list \<Rightarrow> real list \<Rightarrow> jsnum \<times> jsnum \<times> jsnum" where
  "cosine_loop acc [] bs = acc"
| "cosine_loop (dotProduct, normA, normB) (x # xs) bs =
     (let y = (case bs of [] \<Rightarrow> NaN | b # _ \<Rightarrow> Fin b)
      in cosine_loop (jadd dotProduct (jmul (Fin x) y),
                      jadd normA (jmul (Fin x) (Fin x)),
                      jadd normB (jmul y y)) xs (tl bs))"

definition cosineSimilarity :: "embedding \<Rightarrow> embedding \<Rightarrow> jsnum" where
  "cosineSimilarity a b =
     (case cosine_loop (Fin 0, Fin 0, Fin 0) a b of
        (dotProduct, normA, normB) \<Rightarrow> jdiv dotProduct (jmul (jsqrt normA) (jsqrt normB)))"

definition starts_with :: "string \<Rightarrow> string \<Rightarrow> bool" where
  "starts_with s p = (take (length p) s = p)"

definition getEmbeddingSource :: "string \<Rightarrow> string" where
  "getEmbeddingSource key =
     (if starts_with key ''repo:'' then ''spawned-repository''
      else if starts_with key ''context:'' then ''conversation-context''
      else ''memory-kernel'')"

record rag_result =
  content :: string
  relevance :: jsnum
  source :: string

text \<open>The search loop: one result for every entry whose similarity exceeds the threshold,
  in the order of the map.\<close>

fun rag_matches :: "embedding \<Rightarrow> real \<Rightarrow> (string \<times> embedding) list \<Rightarrow> rag_result list" where
  "rag_matches q thr [] = []"
| "rag_matches q thr ((key, e) # rest) =
     (let similarity = cosineSimilarity q e
      in if jgt similarity (Fin thr)
         then \<lparr>content = key, relevance = similarity, source = getEmbeddingSource key\<rparr>
              # rag_matches q thr rest
         else rag_matches q thr rest)"

text \<open>\<open>results.sort((a, b) => b.relevance - a.relevance)\<close>: the sort is stable, and a
  comparator value that is NaN counts as 0. Stable insertion: an element moves past
  those the comparator puts strictly before it.\<close>

fun insort_relevance :: "rag_result \<Rightarrow> rag_result list \<Rightarrow> rag_result list" where
  "insort_relevance x [] = [x]"
| "insort_relevance x (y # ys) =
     (if jgt (jsub (relevance y) (relevance x)) (Fin 0)
      then y # insort_relevance x ys else x # y # ys)"

definition sort_by_relevance :: "rag_result list \<Rightarrow> rag_result list" where
  "sort_by_relevance rs = foldr insort_relevance rs []"

text \<open>\<open>xs.slice(0, n)\<close> for an integer \<open>n\<close>: a negative end counts from the end of the
  array.\<close>

definition js_slice0 :: "'a list \<Rightarrow> int \<Rightarrow> 'a list" where
  "js_slice0 xs n = (if n < 0 then take (nat (int (length xs) + n)) xs else take (nat n) xs)"

text \<open>\<open>retrieveFromRAG(query, maxResults)\<close>; a call without \<open>maxResults\<close> is the call
  with 5. The agent is not changed.\<close>

definition retrieveFromRAG ::
  "(real \<Rightarrow> real) \<Rightarrow> world \<Rightarrow> GGMLPersonaAgent \<Rightarrow> string \<Rightarrow> int \<Rightarrow>
   (rag_result list \<times> embedding) \<times> world \<times> GGMLPersonaAgent" where
  "retrieveFromRAG fround w agent query maxResults =
     (case generateEmbedding fround w query of
        (queryEmbedding, w1) \<Rightarrow>
          let results = rag_matches queryEmbedding (retrievalThreshold (ragMemory agent))
                          (embeddings (ragMemory agent))
          in ((js_slice0 (sort_by_relevance results) maxResults, queryEmbedding), w1, agent))"

section \<open>Persona agent: spawning\<close>

text \<open>The artifact of a spawn. The text of the generated files belongs to the scaffolding
  layer and is left out; the clock is still read once for the package name.\<close>

record bolt_artifact =
  artifact_id :: string
  title :: string
  action_paths :: "string list"

record rag_extension =
  ext_repoId :: string
  ext_embeddings :: "(string \<times> embedding) list"
  knowledgeGraph :: "(string \<times> string list) list"

record spawn_result =
  repoId :: string
  boltArtifact :: bolt_artifact
  ragExtension :: rag_extension

definition generateArchitectureFiles :: "RepoSpawnRequest \<Rightarrow> string list" where
  "generateArchitectureFiles request =
     (if repo_architecture request = Frontend \<or> repo_architecture request = Fullstack
      then [''src/App.tsx''] else [])
     @ (if repo_architecture request = Backend \<or> repo_architecture request = Fullstack
        then [''src/server.ts''] else [])
     @ (if repo_architecture request = AiAgent then [''src/agent.ts''] else [])"

definition createBoltArtifact :: "world \<Rightarrow> RepoSpawnRequest \<Rightarrow> string \<Rightarrow> bolt_artifact \<times> world" where
  "createBoltArtifact w request rid =
     (case date_now w of
        (now, w1) \<Rightarrow>
          (\<lparr>artifact_id = rid,
            title = ''AI-Generated Repository: '' @ spawn_intent request,
            action_paths = [''package.json'', ''README.md''] @ generateArchitectureFiles request\<rparr>,
           w1))"

definition createRAGExtension ::
  "(real \<Rightarrow> real) \<Rightarrow> world \<Rightarrow> GGMLPersonaAgent \<Rightarrow> RepoSpawnRequest \<Rightarrow> string \<Rightarrow>
   rag_extension \<times> world \<times> GGMLPersonaAgent" where
  "createRAGExtension fround w agent request rid =
     (case generateEmbedding fround w (spawn_intent request) of
        (contextEmbedding, w1) \<Rightarrow>
          let m = ragMemory agent;
              m1 = m\<lparr>embeddings := AList.update (''repo:'' @ rid) contextEmbedding (embeddings m)\<rparr>;
              m2 = m1\<lparr>semanticGraph := AList.update rid [spawn_intent request] (semanticGraph m1)\<rparr>
          in (\<lparr>ext_repoId = rid,
               ext_embeddings = [(''repo:'' @ rid @ '':intent'', contextEmbedding)],
               knowledgeGraph = []\<rparr>,
              w1, agent\<lparr>ragMemory := m2\<rparr>))"

definition updateSelfModelFromSpawning ::
  "(real \<Rightarrow> real) \<Rightarrow> world \<Rightarrow> GGMLPersonaAgent \<Rightarrow> RepoSpawnRequest \<Rightarrow> string \<Rightarrow>
   world \<times> GGMLPersonaAgent" where
  "updateSelfModelFromSpawning fround w agent request rid =
     (case generateEmbedding fround w (''spawned:'' @ rid @ '':'' @ spawn_intent request) of
        (spawnEmbedding, w1) \<Rightarrow>
          let m = ragMemory agent
          in (w1, agent\<lparr>ragMemory :=
                m\<lparr>embeddings := AList.update (''self-model:spawn:'' @ rid) spawnEmbedding
                                   (embeddings m)\<rparr>\<rparr>))"

text \<open>\<open>spawnRepository\<close>: \<open>token r\<close> stands for \<open>r.toString(36).substr(2, 9)\<close>. The depth
  check comes first and throws before anything is read or written.\<close>

definition spawnRepository ::
  "(real \<Rightarrow> real) \<Rightarrow> (real \<Rightarrow> string) \<Rightarrow> world \<Rightarrow> GGMLPersonaAgent \<Rightarrow> RepoSpawnRequest \<Rightarrow>
   (error + spawn_result) \<times> world \<times> GGMLPersonaAgent" where
  "spawnRepository fround token w agent request =
     (if recursionLevel request \<ge> recursionDepth (traits agent)
      then (Inl (RecursionLimitError (recursionDepth (traits agent))), w, agent)
      else
        case date_now w of (now, w1) \<Rightarrow>
        case math_random w1 of (r, w2) \<Rightarrow>
        let rid = ''repo_'' @ show_nat now @ ''_'' @ token r in
        case createBoltArtifact w2 request rid of (artifact, w3) \<Rightarrow>
        case createRAGExtension fround w3 agent request rid of (extension, w4, agent1) \<Rightarrow>
        let agent2 = agent1\<lparr>spawnedRepos := AList.update rid request (spawnedRepos agent1)\<rparr> in
        case updateSelfModelFromSpawning fround w4 agent2 request rid of (w5, agent3) \<Rightarrow>
          (Inr \<lparr>repoId = rid, boltArtifact = artifact, ragExtension = extension\<rparr>, w5, agent3))"

section \<open>Persona agent: the OODA loop\<close>

text \<open>\<open>toLowerCase\<close> on the ASCII letters (strings are byte strings here).\<close>

definition to_lower_char :: "char \<Rightarrow> char" where
  "to_lower_char c =
     (let n = (of_char c :: nat) in if 65 \<le> n \<and> n \<le> 90 then char_of (n + 32) else c)"

definition toLowerCase :: "string \<Rightarrow> string" where
  "toLowerCase s = map to_lower_char s"

definition parseIntentToCognitive :: "string \<Rightarrow> CognitiveIntent" where
  "parseIntentToCognitive text =
     (let l = toLowerCase text;
          i0 = \<lparr>domain = ''general'', task = ''respond'', precision = Medium, realtime = False,
                complexity = 5\<rparr>;
          i1 = (if str_includes l ''create'' \<or> str_includes l ''build''
                then i0\<lparr>task := ''creation'', complexity := complexity i0 + 2\<rparr> else i0);
          i2 = (if str_includes l ''analyze'' \<or> str_includes l ''understand''
                then i1\<lparr>task := ''analysis'', precision := High, complexity := complexity i1 + 1\<rparr>
                else i1);
          i3 = (if str_includes l ''app'' \<or> str_includes l ''website''
                then i2\<lparr>domain := ''development'', complexity := complexity i2 + 2\<rparr> else i2);
          i4 = (if str_includes l ''ai'' \<or> str_includes l ''machine learning''
                then i3\<lparr>domain := ''ai'', complexity := complexity i3 + 3\<rparr> else i3)
      in i4)"

text \<open>The embeddings of \<open>Promise.all(context.map(...))\<close>, generated in the order of the
  context.\<close>

fun generateEmbeddings :: "(real \<Rightarrow> real) \<Rightarrow> world \<Rightarrow> string list \<Rightarrow> embedding list \<times> world" where
  "generateEmbeddings fround w [] = ([], w)"
| "generateEmbeddings fround w (c # cs) =
     (case generateEmbedding fround w c of
        (e, w1) \<Rightarrow> (case generateEmbeddings fround w1 cs of (es, w2) \<Rightarrow> (e # es, w2)))"

text \<open>The insertion loop of the Orient phase.\<close>

fun insert_context :: "(real \<Rightarrow> real) \<Rightarrow> world \<Rightarrow> RAGMemoryState \<Rightarrow> string list \<Rightarrow> world \<times> RAGMemoryState" where
  "insert_context fround w m [] = (w, m)"
| "insert_context fround w m (contextItem # rest) =
     (case generateEmbedding fround w contextItem of
        (e, w1) \<Rightarrow>
          insert_context fround w1
            (m\<lparr>embeddings := AList.update contextItem e (embeddings m),
               contextWindow := contextWindow m @ [contextItem]\<rparr>) rest)"

text \<open>The eviction that follows the loop: \<open>splice(0, length - 50)\<close> takes the oldest keys
  out of the window, and their embeddings are deleted one by one.\<close>

definition limit_context_window :: "RAGMemoryState \<Rightarrow> RAGMemoryState" where
  "limit_context_window m =
     (if length (contextWindow m) > 100
      then let removedItems = take (length (contextWindow m) - 50) (contextWindow m)
           in m\<lparr>contextWindow := drop (length (contextWindow m) - 50) (contextWindow m),
                embeddings := fold AList.delete removedItems (embeddings m)\<rparr>
      else m)"

definition orientCognitiveModel ::
  "(real \<Rightarrow> real) \<Rightarrow> world \<Rightarrow> GGMLPersonaAgent \<Rightarrow> CognitiveIntent \<Rightarrow> string list \<Rightarrow>
   world \<times> GGMLPersonaAgent" where
  "orientCognitiveModel fround w agent cognitiveIntent context =
     (case generateEmbeddings fround w context of (es, w1) \<Rightarrow>
      case date_now w1 of (now, w2) \<Rightarrow>
      let agent1 = agent\<lparr>oodaLoop := (oodaLoop agent)\<lparr>orient :=
                     Some \<lparr>oriented_cognitiveIntent = cognitiveIntent, contextEmbeddings = es,
                           oriented_timestamp = now\<rparr>\<rparr>\<rparr> in
      case insert_context fround w2 (ragMemory agent1) context of (w3, m) \<Rightarrow>
        (w3, agent1\<lparr>ragMemory := limit_context_window m\<rparr>))"

definition inferTechnologies :: "CognitiveIntent \<Rightarrow> string list" where
  "inferTechnologies ci =
     [''typescript'', ''node.js'']
     @ (if domain ci = ''development'' then [''react'', ''vite''] else [])
     @ (if domain ci = ''ai'' then [''python'', ''pytorch'', ''transformers''] else [])"

definition inferArchitecture :: "CognitiveIntent \<Rightarrow> repo_architecture" where
  "inferArchitecture ci =
     (if domain ci = ''ai'' then AiAgent
      else if complexity ci > 7 then Fullstack
      else if str_includes (task ci) ''api'' \<or> str_includes (task ci) ''server'' then Backend
      else Frontend)"

definition decideResponseStrategy ::
  "world \<Rightarrow> GGMLPersonaAgent \<Rightarrow> CognitiveIntent \<Rightarrow> decision \<times> world \<times> GGMLPersonaAgent" where
  "decideResponseStrategy w agent cognitiveIntent =
     (case date_now w of (now, w1) \<Rightarrow>
      let d0 = \<lparr>shouldSpawnRepo = False, spawnRequests = [], responseType = ''direct'',
                decision_complexity = complexity cognitiveIntent, decision_timestamp = now\<rparr>;
          d = (if boltIntegration (traits agent)
                  \<and> (task cognitiveIntent = ''creation'' \<or> domain cognitiveIntent = ''development'')
                  \<and> complexity cognitiveIntent > 6
               then d0\<lparr>shouldSpawnRepo := True, responseType := ''repo-spawn'',
                       spawnRequests := spawnRequests d0 @
                         [\<lparr>spawn_intent = ''Create repository for '' @ domain cognitiveIntent
                              @ '' '' @ task cognitiveIntent,
                           technologies = inferTechnologies cognitiveIntent,
                           repo_architecture = inferArchitecture cognitiveIntent,
                           parentRepo = None,
                           recursionLevel = 0\<rparr>]\<rparr>
               else d0)
      in (d, w1, agent\<lparr>oodaLoop := (oodaLoop agent)\<lparr>decide := Some d\<rparr>\<rparr>))"

definition show_int :: "int \<Rightarrow> string" where
  "show_int i = (if i < 0 then ''-'' @ show_nat (nat (- i)) else show_nat (nat i))"

definition generateDirectResponse :: "GGMLPersonaAgent \<Rightarrow> decision \<Rightarrow> string" where
  "generateDirectResponse agent d =
     ''I understand your request. ''
     @ (if jgt (creativity (traits agent)) (Fin (7 / 10))
        then ''Let me explore some creative possibilities for this. '' else [])
     @ (if jgt (trait_precision (traits agent)) (Fin (7 / 10))
        then ''I'' @ [CHR 0x27] @ ''ll provide a detailed and accurate solution. '' else [])
     @ ''Based on my cognitive analysis (complexity: '' @ show_int (decision_complexity d)
     @ ''), here'' @ [CHR 0x27] @ ''s my response...''"

text \<open>\<open>updateRAGMemory\<close>: an empty response is falsy and stores nothing.\<close>

definition updateRAGMemory ::
  "(real \<Rightarrow> real) \<Rightarrow> world \<Rightarrow> GGMLPersonaAgent \<Rightarrow> string \<Rightarrow>
   memory_updates \<times> world \<times> GGMLPersonaAgent" where
  "updateRAGMemory fround w agent resp =
     (let u0 = \<lparr>newEmbeddings = 0, updatedContexts = 0, graphExtensions = 0\<rparr> in
      if resp \<noteq> [] then
        case generateEmbedding fround w resp of (e, w1) \<Rightarrow>
        case date_now w1 of (now, w2) \<Rightarrow>
          let key = ''execution:'' @ show_nat now; m = ragMemory agent
          in (u0\<lparr>newEmbeddings := newEmbeddings u0 + 1\<rparr>, w2,
              agent\<lparr>ragMemory := m\<lparr>embeddings := AList.update key e (embeddings m)\<rparr>\<rparr>)
      else (u0, w, agent))"

text \<open>The spawn loop of the Act phase: a throw of \<open>spawnRepository\<close> leaves the loop with
  the state reached so far.\<close>

fun spawn_each ::
  "(real \<Rightarrow> real) \<Rightarrow> (real \<Rightarrow> string) \<Rightarrow> world \<Rightarrow> GGMLPersonaAgent \<Rightarrow> RepoSpawnRequest list \<Rightarrow>
   RepoSpawnRequest list \<times> string \<Rightarrow>
   (error + RepoSpawnRequest list \<times> string) \<times> world \<times> GGMLPersonaAgent" where
  "spawn_each fround token w agent [] acc = (Inr acc, w, agent)"
| "spawn_each fround token w agent (spawnRequest # rest) (spawned, resp) =
     (case spawnRepository fround token w agent spawnRequest of
        (Inl e, w1, agent1) \<Rightarrow> (Inl e, w1, agent1)
      | (Inr spawnResult, w1, agent1) \<Rightarrow>
          spawn_each fround token w1 agent1 rest
            (spawned @ [spawnRequest],
             resp @ [CHR 0x0A] @ ''Spawned repository: '' @ repoId spawnResult))"

definition executeDecision ::
  "(real \<Rightarrow> real) \<Rightarrow> (real \<Rightarrow> string) \<Rightarrow> world \<Rightarrow> GGMLPersonaAgent \<Rightarrow> decision \<Rightarrow>
   (error + exec_result) \<times> world \<times> GGMLPersonaAgent" where
  "executeDecision fround token w agent d =
     (case date_now w of (now, w1) \<Rightarrow>
      case (if shouldSpawnRepo d
            then (case spawn_each fround token w1 agent (spawnRequests d) ([], []) of
                    (Inl e, w2, agent1) \<Rightarrow> (Inl e, w2, agent1)
                  | (Inr (spawned, resp), w2, agent1) \<Rightarrow> (Inr (Some spawned, resp), w2, agent1))
            else (Inr (None, generateDirectResponse agent d), w1, agent)) of
        (Inl e, w2, agent1) \<Rightarrow> (Inl e, w2, agent1)
      | (Inr (spawned, resp), w2, agent1) \<Rightarrow>
          (case updateRAGMemory fround w2 agent1 resp of (u, w3, agent2) \<Rightarrow>
             let res = \<lparr>response = resp, result_spawnedRepos = spawned, memoryUpdates = Some u,
                        result_timestamp = now\<rparr>
             in (Inr res, w3, agent2\<lparr>oodaLoop := (oodaLoop agent2)\<lparr>act := Some res\<rparr>\<rparr>)))"

section \<open>Persona agent: adaptation\<close>

record success_metrics =
  overallSuccess :: real
  responseQuality :: real
  executionTime :: real
  resourceUsage :: real

definition analyzeResultSuccess :: "exec_result \<Rightarrow> success_metrics" where
  "analyzeResultSuccess res =
     \<lparr>overallSuccess = 85 / 100, responseQuality = 9 / 10, executionTime = 150,
      resourceUsage = 3 / 10\<rparr>"

record adaptations =
  traitEvolutions :: "(string \<times> string) list"
  adaptations_timestamp :: nat

definition evolveTraitsFromFailure ::
  "(real \<Rightarrow> jsnum) \<Rightarrow> GGMLPersonaAgent \<Rightarrow> success_metrics \<Rightarrow>
   (string \<times> string) list \<times> GGMLPersonaAgent" where
  "evolveTraitsFromFailure dround agent metrics =
     (if responseQuality metrics < 6 / 10
      then ([(''precision'', ''increased_from_failure'')],
            agent\<lparr>traits := (traits agent)\<lparr>trait_precision :=
                     jmin (Fin 1) (dmul dround (trait_precision (traits agent)) (Fin double_1_15))\<rparr>\<rparr>)
      else ([], agent))"

definition adaptSelfModel ::
  "(real \<Rightarrow> jsnum) \<Rightarrow> world \<Rightarrow> GGMLPersonaAgent \<Rightarrow> exec_result \<Rightarrow>
   adaptations \<times> world \<times> GGMLPersonaAgent" where
  "adaptSelfModel dround w agent res =
     (case date_now w of (now, w1) \<Rightarrow>
      let successMetrics = analyzeResultSuccess res in
      if overallSuccess successMetrics > 8 / 10
      then (\<lparr>traitEvolutions = [], adaptations_timestamp = now\<rparr>, w1,
            agent\<lparr>traits := (traits agent)\<lparr>adaptationRate :=
                     dmul dround (adaptationRate (traits agent)) (Fin double_1_1)\<rparr>\<rparr>)
      else
        let agent1 = agent\<lparr>traits := (traits agent)\<lparr>adaptationRate :=
                       dmul dround (adaptationRate (traits agent)) (Fin double_1_2)\<rparr>\<rparr>
        in case evolveTraitsFromFailure dround agent1 successMetrics of
             (ev, agent2) \<Rightarrow> (\<lparr>traitEvolutions = ev, adaptations_timestamp = now\<rparr>, w1, agent2))"

record intent_result =
  intent_response :: string
  intent_spawnedRepos :: "RepoSpawnRequest list option"
  intent_memoryUpdates :: "memory_updates option"
  intent_adaptations :: adaptations

text \<open>\<open>processIntent\<close>: Observe, Orient, Decide, Act, then the adaptation. A throw in the
  Act phase ends the call; what was written before it stays.\<close>

definition processIntent ::
  "(real \<Rightarrow> real) \<Rightarrow> (real \<Rightarrow> jsnum) \<Rightarrow> (real \<Rightarrow> string) \<Rightarrow> world \<Rightarrow> GGMLPersonaAgent \<Rightarrow>
   string \<Rightarrow> string list \<Rightarrow> (error + intent_result) \<times> world \<times> GGMLPersonaAgent" where
  "processIntent fround dround token w agent text context =
     (let cognitiveIntent = parseIntentToCognitive text in
      case date_now w of (now, w1) \<Rightarrow>
      let agent1 = agent\<lparr>oodaLoop := (oodaLoop agent)\<lparr>observe :=
                     Some \<lparr>observed_intent = text, observed_context = context,
                           observed_cognitiveIntent = cognitiveIntent,
                           observed_timestamp = now\<rparr>\<rparr>\<rparr> in
      case orientCognitiveModel fround w1 agent1 cognitiveIntent context of (w2, agent2) \<Rightarrow>
      case decideResponseStrategy w2 agent2 cognitiveIntent of (d, w3, agent3) \<Rightarrow>
      case executeDecision fround token w3 agent3 d of
        (Inl e, w4, agent4) \<Rightarrow> (Inl e, w4, agent4)
      | (Inr res, w4, agent4) \<Rightarrow>
          (case adaptSelfModel dround w4 agent4 res of (ad, w5, agent5) \<Rightarrow>
             (Inr \<lparr>intent_response = response res,
                   intent_spawnedRepos = result_spawnedRepos res,
                   intent_memoryUpdates = memoryUpdates res,
                   intent_adaptations = ad\<rparr>, w5, agent5)))"

record performance =
  successRate :: real
  responseTime :: real
  userSatisfaction :: real
  repoSpawnSuccess :: real
  memoryRetrieval :: real

definition analyzePerformance :: performance where
  "analyzePerformance =
     \<lparr>successRate = 85 / 100, responseTime = 250, userSatisfaction = 9 / 10,
      repoSpawnSuccess = 95 / 100, memoryRetrieval = 88 / 100\<rparr>"

definition adaptPersonaTensors :: "performance \<Rightarrow> (string \<times> string) list" where
  "adaptPersonaTensors perf =
     (if successRate perf < 8 / 10 then [(''cognitiveModules'', ''increased_attention_weights'')]
      else [])
     @ (if memoryRetrieval perf < 85 / 100
        then [(''memoryKernel'', ''enhanced_embedding_precision'')] else [])"

definition evolveTraits ::
  "(real \<Rightarrow> jsnum) \<Rightarrow> GGMLPersonaAgent \<Rightarrow> performance \<Rightarrow>
   (string \<times> string) list \<times> GGMLPersonaAgent" where
  "evolveTraits dround agent perf =
     (let (a1, agent1) =
            (if repoSpawnSuccess perf > 9 / 10
             then ([(''creativity'', ''increased'')],
                   agent\<lparr>traits := (traits agent)\<lparr>creativity :=
                            jmin (Fin 1)
                              (dmul dround (creativity (traits agent)) (Fin double_1_05))\<rparr>\<rparr>)
             else ([], agent));
          (a2, agent2) =
            (if responseTime perf > 500
             then ([(''precision'', ''increased'')],
                   agent1\<lparr>traits := (traits agent1)\<lparr>trait_precision :=
                            jmin (Fin 1)
                              (dmul dround (trait_precision (traits agent1)) (Fin double_1_1))\<rparr>\<rparr>)
             else ([], agent1))
      in (a1 @ a2, agent2))"

record self_modification =
  cognitiveUpdates :: performance
  tensorUpdates :: "(string \<times> string) list"
  traitAdaptations :: "(string \<times> string) list"

definition performSelfModification ::
  "(real \<Rightarrow> jsnum) \<Rightarrow> GGMLPersonaAgent \<Rightarrow> self_modification \<times> GGMLPersonaAgent" where
  "performSelfModification dround agent =
     (let perf = analyzePerformance;
          tu = adaptPersonaTensors perf;
          (ta, agent1) = evolveTraits dround agent perf
      in (\<lparr>cognitiveUpdates = perf, tensorUpdates = tu, traitAdaptations = ta\<rparr>, agent1))"

definition initializeRAGMemory :: RAGMemoryState where
  "initializeRAGMemory =
     \<lparr>embeddings = [], contextWindow = [], semanticGraph = [], retrievalThreshold = 7 / 10\<rparr>"

definition initializeOODALoop :: OODALoopState where
  "initializeOODALoop = \<lparr>observe = None, orient = None, decide = None, act = None\<rparr>"

section \<open>Persona agent: construction\<close>

text \<open>\<open>mount\<close> as the constructor calls it: the fill loop of \<open>createTensor\<close> takes 1024
  random values, the id then reads the clock and one more random value.\<close>

definition mount_in_world ::
  "(real \<Rightarrow> real) \<Rightarrow> (real \<Rightarrow> string) \<Rightarrow> world \<Rightarrow> heap \<Rightarrow> CognitiveQuantumField \<Rightarrow> string \<Rightarrow>
   error + (Tensor \<times> world \<times> heap \<times> CognitiveQuantumField)" where
  "mount_in_world fround token w h field path =
     (case mount fround (random w) (clock w 0) (token (random w 1024)) h field path of
        Inl e \<Rightarrow> Inl e
      | Inr (t, h', field') \<Rightarrow>
          Inr (t, w\<lparr>random := \<lambda>i. random w (i + 1025), clock := \<lambda>i. clock w (Suc i)\<rparr>,
               h', field'))"

definition new_GGMLPersonaAgent ::
  "(real \<Rightarrow> real) \<Rightarrow> (real \<Rightarrow> string) \<Rightarrow> world \<Rightarrow> heap \<Rightarrow> PersonaTraits \<Rightarrow>
   error + (GGMLPersonaAgent \<times> world \<times> heap)" where
  "new_GGMLPersonaAgent fround token w h tr =
     (case mount_in_world fround token w h \<lparr>mountedTensors = Map.empty\<rparr>
             ''/persona/cognitive/modules'' of
        Inl e \<Rightarrow> Inl e
      | Inr (t1, w1, h1, f1) \<Rightarrow>
     (case mount_in_world fround token w1 h1 f1 ''/persona/memory/rag'' of
        Inl e \<Rightarrow> Inl e
      | Inr (t2, w2, h2, f2) \<Rightarrow>
     (case mount_in_world fround token w2 h2 f2 ''/persona/task/bolt'' of
        Inl e \<Rightarrow> Inl e
      | Inr (t3, w3, h3, f3) \<Rightarrow>
     (case mount_in_world fround token w3 h3 f3 ''/persona/autonomy/recursive'' of
        Inl e \<Rightarrow> Inl e
      | Inr (t4, w4, h4, f4) \<Rightarrow>
     (case mount_in_world fround token w4 h4 f4 ''/persona/self/meta'' of
        Inl e \<Rightarrow> Inl e
      | Inr (t5, w5, h5, f5) \<Rightarrow>
          Inr (\<lparr>quantumField = f5,
                personaTensors = \<lparr>cognitiveModules = t1, memoryKernel = t2,
                                  taskOrchestrator = t3, autonomyCore = t4\<rparr>,
                traits = tr,
                ragMemory = initializeRAGMemory,
                oodaLoop = initializeOODALoop,
                spawnedRepos = [],
                selfModel = t5\<rparr>, w5, h5))))))"

text \<open>The agent as the Observe and Orient phases of \<open>processIntent\<close> leave it.\<close>

definition after_orient ::
  "(real \<Rightarrow> real) \<Rightarrow> world \<Rightarrow> GGMLPersonaAgent \<Rightarrow> string \<Rightarrow> string list \<Rightarrow> GGMLPersonaAgent" where
  "after_orient fround w agent text context =
     snd (orientCognitiveModel fround (snd (date_now w))
       (agent\<lparr>oodaLoop := (oodaLoop agent)\<lparr>observe :=
                     Some \<lparr>observed_intent = text, observed_context = context,
                           observed_cognitiveIntent = parseIntentToCognitive text,
                           observed_timestamp = fst (date_now w)\<rparr>\<rparr>\<rparr>)
       (parseIntentToCognitive text) context)"

section \<open>Sequences of calls\<close>

text \<open>A client calls the public methods of one agent one after the other and catches what
  they throw. \<open>run_operations\<close> returns the number of completed \<open>processIntent\<close> calls
  together with the final state.\<close>

datatype operation =
    ProcessIntent string "string list"
  | SpawnRepository RepoSpawnRequest
  | RetrieveFromRAG string int
  | PerformSelfModification

fun apply_operation ::
  "(real \<Rightarrow> real) \<Rightarrow> (real \<Rightarrow> jsnum) \<Rightarrow> (real \<Rightarrow> string) \<Rightarrow> world \<Rightarrow> GGMLPersonaAgent \<Rightarrow>
   operation \<Rightarrow> bool \<times> world \<times> GGMLPersonaAgent" where
  "apply_operation fround dround token w agent (ProcessIntent text ctx) =
     (case processIntent fround dround token w agent text ctx of
        (r, w', agent') \<Rightarrow> (\<not> isl r, w', agent'))"
| "apply_operation fround dround token w agent (SpawnRepository request) =
     (case spawnRepository fround token w agent request of (r, w', agent') \<Rightarrow> (False, w', agent'))"
| "apply_operation fround dround token w agent (RetrieveFromRAG query maxResults) =
     (case retrieveFromRAG fround w agent query maxResults of (r, w', agent') \<Rightarrow> (False, w', agent'))"
| "apply_operation fround dround token w agent PerformSelfModification =
     (False, w, snd (performSelfModification dround agent))"

fun run_operations ::
  "(real \<Rightarrow> real) \<Rightarrow> (real \<Rightarrow> jsnum) \<Rightarrow> (real \<Rightarrow> string) \<Rightarrow> world \<Rightarrow> GGMLPersonaAgent \<Rightarrow>
   operation list \<Rightarrow> nat \<times> world \<times> GGMLPersonaAgent" where
  "run_operations fround dround token w agent [] = (0, w, agent)"
| "run_operations fround dround token w agent (x # xs) =
     (case apply_operation fround dround token w agent x of
        (completed, w1, agent1) \<Rightarrow>
          (case run_operations fround dround token w1 agent1 xs of
             (n, w2, agent2) \<Rightarrow> ((if completed then 1 else 0) + n, w2, agent2)))"

text \<open>The context strings a call hands to the Orient phase, and the keys of the
  embeddings map.\<close>

fun op_context :: "operation \<Rightarrow> string list" where
  "op_context (ProcessIntent text ctx) = ctx"
| "op_context _ = []"

abbreviation embedding_keys :: "GGMLPersonaAgent \<Rightarrow> string set" where
  "embedding_keys agent \<equiv> fst ` set (embeddings (ragMemory agent))"

section \<open>Example inputs\<close>

text \<open>The traits of the test-suite (persona-agent.spec.ts), and an agent state with these
  traits, an empty memory and one short tensor in every tensor slot.\<close>

definition double_0_1 :: real where
  "double_0_1 = 3602879701896397 / 36028797018963968"

definition double_0_8 :: real where
  "double_0_8 = 3602879701896397 / 4503599627370496"

definition double_0_9 :: real where
  "double_0_9 = 8106479329266893 / 9007199254740992"

definition mockTraits :: PersonaTraits where
  "mockTraits = \<lparr>creativity = Fin double_0_8, trait_precision = Fin double_0_9,
                  recursionDepth = 3, adaptationRate = Fin double_0_1, boltIntegration = True\<rparr>"

definition mock_tensor :: Tensor where
  "mock_tensor = \<lparr>tensor_id = ''tensor_1_abc'', data = 0, shape = [32, 32], dtype = Uint16,
     architecture = \<lparr>type = Transformer, layers = 7, parameters = 32768, optimization = Memory\<rparr>,
     quantization = \<lparr>bits = B16, quant_method = Dynamic, preserveAccuracy = True\<rparr>\<rparr>"

definition mock_agent :: GGMLPersonaAgent where
  "mock_agent =
     \<lparr>quantumField = \<lparr>mountedTensors = [''/persona/self/meta'' \<mapsto> mock_tensor]\<rparr>,
      personaTensors = \<lparr>cognitiveModules = mock_tensor, memoryKernel = mock_tensor,
                        taskOrchestrator = mock_tensor, autonomyCore = mock_tensor\<rparr>,
      traits = mockTraits,
      ragMemory = initializeRAGMemory,
      oodaLoop = initializeOODALoop,
      spawnedRepos = [],
      selfModel = mock_tensor\<rparr>"

definition mock_world :: world where
  "mock_world = \<lparr>random = (\<lambda>i. 1 / 2), clock = (\<lambda>i. 1000 + i)\<rparr>"

definition mock_token :: "real \<Rightarrow> string" where
  "mock_token r = ''k3j9x0q1z''"

section \<open>Quantization selector\<close>

text \<open>C1 (as stated, refuted): an intent with precision high, domain vision and realtime set
  does not get 32 bits and the adaptive method: the domain adjustment that runs after the
  precision choice resets bits and method.\<close>

theorem optimizeQuantization_high_counterexample:
  "optimizeQuantization \<lparr>domain = ''vision'', task = ''realtime'', precision = High,
       realtime = True, complexity = 8\<rparr>
   \<noteq> \<lparr>bits = B32, quant_method = Adaptive, preserveAccuracy = True\<rparr>"
  by (simp add: optimizeQuantization_def Let_def)

text \<open>C1 (amended): for every intent with precision high, the strategy keeps
  preserveAccuracy = true; it is 32 bits with the adaptive method unless the domain is vision
  and realtime is set, where it is 8 bits with the linear method.\<close>

theorem optimizeQuantization_high:
  "precision intent = High \<Longrightarrow>
   optimizeQuantization intent =
     (if domain intent = ''vision'' \<and> realtime intent
      then \<lparr>bits = B8, quant_method = Linear, preserveAccuracy = True\<rparr>
      else \<lparr>bits = B32, quant_method = Adaptive, preserveAccuracy = True\<rparr>)"
  by (simp add: optimizeQuantization_def Let_def)

theorem optimizeQuantization_high_witness:
  "precision \<lparr>domain = ''nlp'', task = ''precise'', precision = High, realtime = False,
       complexity = 9\<rparr> = High
   \<and> optimizeQuantization \<lparr>domain = ''nlp'', task = ''precise'', precision = High,
       realtime = False, complexity = 9\<rparr>
     = \<lparr>bits = B32, quant_method = Adaptive, preserveAccuracy = True\<rparr>"
  using optimizeQuantization_high
    [of "\<lparr>domain = ''nlp'', task = ''precise'', precision = High, realtime = False,
          complexity = 9\<rparr>"]
  by simp

section \<open>Tensor field: remount\<close>

lemma parsePath_vision_fast:
  "parsePath ''/models/vision/fast'' =
     Inr \<lparr>domain = ''vision'', task = ''fast'', precision = Low, realtime = False, complexity = 7\<rparr>"
  by code_simp

lemma parsePath_nlp_precise:
  "parsePath ''/models/nlp/precise'' =
     Inr \<lparr>domain = ''nlp'', task = ''precise'', precision = High, realtime = False, complexity = 10\<rparr>"
  by code_simp

lemma reinterpretTensor_fields:
  assumes "reinterpretTensor fround now h src arch quant path = (t, h')"
  shows "shape t = shape src" "architecture t = arch" "quantization t = quant"
    "tensor_id t = ''reinterpreted_'' @ tensor_id src @ ''_'' @ show_nat now"
    "data t = length h" "length h' = Suc (length h)"
    "\<And>x. x < length h \<Longrightarrow> deref h' x = deref h x"
  using assms
  by (auto simp: reinterpretTensor_def Let_def alloc_def deref_def nth_append
      split: prod.splits if_splits)

lemma reinterpretTensor_f32_to_u8:
  assumes "reinterpretTensor fround now h src arch quant path = (t, h')"
    and "bits quant = B8" and "dtype src = Float32"
  shows "dtype t = Uint8"
    "deref h' (data t) =
       Uint8Array (map (\<lambda>v. toUint8 (real_of_int (js_round (v * 255)))) (elems (deref h (data src))))"
  using assms
  by (auto simp: reinterpretTensor_def Let_def alloc_def deref_def nth_append
      split: prod.splits if_splits)

lemma reinterpretTensor_u8_to_f32:
  assumes "reinterpretTensor fround now h src arch quant path = (t, h')"
    and "bits quant = B32" and "dtype src = Uint8"
  shows "dtype t = Float32"
    "deref h' (data t) = Float32Array (map (\<lambda>v. fround (v / 255)) (elems (deref h (data src))))"
  using assms
  by (auto simp: reinterpretTensor_def Let_def alloc_def deref_def nth_append
      split: prod.splits if_splits)

lemma remount_parsed:
  assumes "parsePath newPath = Inr intent"
  shows "remount fround now h field src newPath =
     Inr (fst (reinterpretTensor fround now h src
                 (collapseQuantumField intent (optimizeQuantization intent))
                 (optimizeQuantization intent) newPath),
          snd (reinterpretTensor fround now h src
                 (collapseQuantumField intent (optimizeQuantization intent))
                 (optimizeQuantization intent) newPath),
          field\<lparr>mountedTensors := (mountedTensors field)(newPath \<mapsto>
            fst (reinterpretTensor fround now h src
                 (collapseQuantumField intent (optimizeQuantization intent))
                 (optimizeQuantization intent) newPath))\<rparr>)"
  using assms by (simp add: remount_def Let_def split: prod.splits)

text \<open>In real arithmetic, an element of the unit interval comes back from its 8-bit code
  within half a step.\<close>

lemma quantize_unit_interval:
  assumes "0 \<le> x" "x \<le> 1"
  shows "real (unat (toUint8 (real_of_int (js_round (x * 255))))) = real_of_int (js_round (x * 255))"
    and "\<bar>real_of_int (js_round (x * 255)) / 255 - x\<bar> \<le> 1 / 510"
    and "0 \<le> real_of_int (js_round (x * 255)) / 255 \<and> real_of_int (js_round (x * 255)) / 255 \<le> 1"
proof -
  let ?n = "js_round (x * 255)"
  have lo: "0 \<le> ?n" using assms by (simp add: js_round_def)
  have "x * 255 + 1 / 2 < 256" using assms by simp
  then have hi: "?n < 256" unfolding js_round_def by (simp add: floor_less_iff)
  have "js_trunc (real_of_int ?n) = ?n" using lo by (simp add: js_trunc_def)
  then have "unat (toUint8 (real_of_int ?n)) = nat ?n"
    using lo hi by (simp add: toUint8_def unat_eq_nat_uint uint_word_of_int)
  then show "real (unat (toUint8 (real_of_int ?n))) = real_of_int ?n" using lo by simp
  have a: "real_of_int ?n \<le> x * 255 + 1 / 2" unfolding js_round_def by (rule of_int_floor_le)
  have b: "x * 255 + 1 / 2 < real_of_int ?n + 1" unfolding js_round_def by linarith
  show "\<bar>real_of_int ?n / 255 - x\<bar> \<le> 1 / 510" using a b by linarith
  have "real_of_int ?n \<le> 255" using hi by linarith
  moreover have "0 \<le> real_of_int ?n" using lo by simp
  ultimately show "0 \<le> real_of_int ?n / 255 \<and> real_of_int ?n / 255 \<le> 1" by simp
qed

text \<open>C5 (as stated, refuted): a float32 tensor may hold an element outside the unit
  interval. The store into the Uint8Array wraps 510 to 254, and the element 2 comes back
  as 254/255.\<close>

theorem remount_roundtrip_counterexample:
  "roundtrip_data id 1 2 [Float32Array [2]] \<lparr>mountedTensors = Map.empty\<rparr>
      \<lparr>tensor_id = ''tensor_1_abc'', data = 0, shape = [1], dtype = Float32,
        architecture = \<lparr>type = Transformer, layers = 15, parameters = 1048576,
          optimization = Accuracy\<rparr>,
        quantization = \<lparr>bits = B32, quant_method = Adaptive, preserveAccuracy = True\<rparr>\<rparr>
      ''/models/vision/fast'' ''/models/nlp/precise'' = Inr (Float32Array [254 / 255])
   \<and> \<not> \<bar>254 / 255 - 2\<bar> \<le> (1 / 255 :: real)"
  by (simp add: roundtrip_data_def remount_twice_def remount_def parsePath_vision_fast
      parsePath_nlp_precise optimizeQuantization_def collapseQuantumField_def
      reinterpretTensor_def alloc_def deref_def Let_def toUint8_def js_round_def js_trunc_def)

text \<open>C5 (amended): for every float32 tensor whose elements lie in the unit interval,
  remounting it under a path that selects 8 bits and remounting the result under a path that
  selects 32 bits succeeds and yields a float32 array of the same length, each element
  within 1/255 of the original. The store into the Float32Array may round a value of the
  unit interval by up to 1/510 (float32 rounding is far below that).\<close>

theorem remount_roundtrip:
  assumes p1: "parsePath p8 = Inr i8" and b1: "bits (optimizeQuantization i8) = B8"
    and p2: "parsePath p32 = Inr i32" and b2: "bits (optimizeQuantization i32) = B32"
    and dt: "dtype src = Float32"
    and buf: "deref h (data src) = Float32Array xs"
    and range: "\<forall>x \<in> set xs. 0 \<le> x \<and> x \<le> 1"
    and fr: "\<forall>y. 0 \<le> y \<and> y \<le> 1 \<longrightarrow> \<bar>fround y - y\<bar> \<le> 1 / 510"
  shows "\<exists>ys. roundtrip_data fround now1 now2 h field src p8 p32 = Inr (Float32Array ys)
           \<and> length ys = length xs
           \<and> (\<forall>i < length xs. \<bar>ys ! i - xs ! i\<bar> \<le> 1 / 255)"
proof -
  obtain t1 h1 where q1: "reinterpretTensor fround now1 h src
      (collapseQuantumField i8 (optimizeQuantization i8)) (optimizeQuantization i8) p8 = (t1, h1)"
    by (cases "reinterpretTensor fround now1 h src
      (collapseQuantumField i8 (optimizeQuantization i8)) (optimizeQuantization i8) p8")
  obtain t2 h2 where q2: "reinterpretTensor fround now2 h1 t1
      (collapseQuantumField i32 (optimizeQuantization i32)) (optimizeQuantization i32) p32 = (t2, h2)"
    by (cases "reinterpretTensor fround now2 h1 t1
      (collapseQuantumField i32 (optimizeQuantization i32)) (optimizeQuantization i32) p32")
  have r: "roundtrip_data fround now1 now2 h field src p8 p32 = Inr (deref h2 (data t2))"
    by (simp add: roundtrip_data_def remount_twice_def remount_parsed [OF p1]
        remount_parsed [OF p2] q1 q2)
  note s1 = reinterpretTensor_f32_to_u8 [OF q1 b1 dt]
  note s2 = reinterpretTensor_u8_to_f32 [OF q2 b2 s1(1)]
  let ?g = "\<lambda>x. fround (real (unat (toUint8 (real_of_int (js_round (x * 255))))) / 255)"
  have ys: "deref h2 (data t2) = Float32Array (map ?g xs)"
    using s2(2) s1(2) buf by (simp add: comp_def)
  have "\<bar>map ?g xs ! i - xs ! i\<bar> \<le> 1 / 255" if "i < length xs" for i
  proof -
    from that range have x: "0 \<le> xs ! i" "xs ! i \<le> 1" by auto
    let ?q = "real_of_int (js_round (xs ! i * 255)) / 255"
    have "?g (xs ! i) = fround ?q" using quantize_unit_interval(1) [OF x] by simp
    moreover have "0 \<le> ?q \<and> ?q \<le> 1" by (rule quantize_unit_interval(3) [OF x])
    then have "\<bar>fround ?q - ?q\<bar> \<le> 1 / 510" using fr by blast
    moreover have "\<bar>?q - xs ! i\<bar> \<le> 1 / 510" by (rule quantize_unit_interval(2) [OF x])
    ultimately have "\<bar>?g (xs ! i) - xs ! i\<bar> \<le> 1 / 255" by linarith
    then show ?thesis using that by simp
  qed
  with ys r show ?thesis by auto
qed

theorem remount_roundtrip_witness:
  "parsePath ''/models/vision/fast'' =
     Inr \<lparr>domain = ''vision'', task = ''fast'', precision = Low, realtime = False, complexity = 7\<rparr>
   \<and> parsePath ''/models/nlp/precise'' =
     Inr \<lparr>domain = ''nlp'', task = ''precise'', precision = High, realtime = False, complexity = 10\<rparr>
   \<and> (\<exists>ys. roundtrip_data id 1 2 [Float32Array [0, 1 / 2, 1]] \<lparr>mountedTensors = Map.empty\<rparr>
          \<lparr>tensor_id = ''tensor_1_abc'', data = 0, shape = [3], dtype = Float32,
            architecture = \<lparr>type = Transformer, layers = 15, parameters = 1048576,
              optimization = Accuracy\<rparr>,
            quantization = \<lparr>bits = B32, quant_method = Adaptive, preserveAccuracy = True\<rparr>\<rparr>
          ''/models/vision/fast'' ''/models/nlp/precise'' = Inr (Float32Array ys)
        \<and> length ys = 3
        \<and> \<bar>ys ! 0 - 0\<bar> \<le> 1 / 255 \<and> \<bar>ys ! 1 - 1 / 2\<bar> \<le> 1 / 255 \<and> \<bar>ys ! 2 - 1\<bar> \<le> 1 / 255)"
proof -
  let ?src = "\<lparr>tensor_id = ''tensor_1_abc'', data = 0, shape = [3], dtype = Float32,
            architecture = \<lparr>type = Transformer, layers = 15, parameters = 1048576,
              optimization = Accuracy\<rparr>,
            quantization = \<lparr>bits = B32, quant_method = Adaptive, preserveAccuracy = True\<rparr>\<rparr>"
  have b1: "bits (optimizeQuantization \<lparr>domain = ''vision'', task = ''fast'', precision = Low,
      realtime = False, complexity = 7\<rparr>) = B8"
    by (simp add: optimizeQuantization_def Let_def)
  have b2: "bits (optimizeQuantization \<lparr>domain = ''nlp'', task = ''precise'', precision = High,
      realtime = False, complexity = 10\<rparr>) = B32"
    by (simp add: optimizeQuantization_def Let_def)
  have dt: "dtype ?src = Float32" by simp
  have buf: "deref [Float32Array [0, 1 / 2, 1]] (data ?src) = Float32Array [0, 1 / 2, 1]"
    by (simp add: deref_def)
  have range: "\<forall>x \<in> set [0, 1 / 2, 1 :: real]. 0 \<le> x \<and> x \<le> 1" by simp
  have fr: "\<forall>y :: real. 0 \<le> y \<and> y \<le> 1 \<longrightarrow> \<bar>id y - y\<bar> \<le> 1 / 510" by simp
  from remount_roundtrip [OF parsePath_vision_fast b1 parsePath_nlp_precise b2 dt buf range fr,
        of 1 2 "\<lparr>mountedTensors = Map.empty\<rparr>"]
  obtain ys where ys: "roundtrip_data id 1 2 [Float32Array [0, 1 / 2, 1]]
        \<lparr>mountedTensors = Map.empty\<rparr> ?src ''/models/vision/fast'' ''/models/nlp/precise''
        = Inr (Float32Array ys)"
    and len: "length ys = length [0, 1 / 2, 1 :: real]"
    and close: "\<forall>i < length [0, 1 / 2, 1 :: real]. \<bar>ys ! i - [0, 1 / 2, 1] ! i\<bar> \<le> 1 / 255"
    by blast
  from close [rule_format, of 0] close [rule_format, of 1] close [rule_format, of 2]
  have "\<bar>ys ! 0 - 0\<bar> \<le> 1 / 255" "\<bar>ys ! 1 - 1 / 2\<bar> \<le> 1 / 255"
    "\<bar>ys ! 2 - 1\<bar> \<le> 1 / 255"
    by simp_all
  with ys len parsePath_vision_fast parsePath_nlp_precise show ?thesis by auto
qed

text \<open>C7: for every source tensor and every path that parses, remount returns a tensor with
  the shape of the source and an id different from the source's; the array it holds is
  newly allocated, every array that existed before (the source's among them) is unchanged,
  and the mount table changes at the new path only.\<close>

theorem remount_frame:
  assumes "parsePath newPath = Inr intent"
  shows "\<exists>t h' field'. remount fround now h field src newPath = Inr (t, h', field')
     \<and> shape t = shape src
     \<and> tensor_id t \<noteq> tensor_id src
     \<and> data t = length h \<and> length h' = Suc (length h)
     \<and> (\<forall>a < length h. deref h' a = deref h a)
     \<and> mountedTensors field' newPath = Some t
     \<and> (\<forall>p. p \<noteq> newPath \<longrightarrow> mountedTensors field' p = mountedTensors field p)"
proof -
  obtain t h' where q: "reinterpretTensor fround now h src
      (collapseQuantumField intent (optimizeQuantization intent))
      (optimizeQuantization intent) newPath = (t, h')"
    by (cases "reinterpretTensor fround now h src
      (collapseQuantumField intent (optimizeQuantization intent))
      (optimizeQuantization intent) newPath")
  have r: "remount fround now h field src newPath =
      Inr (t, h', field\<lparr>mountedTensors := (mountedTensors field)(newPath \<mapsto> t)\<rparr>)"
    by (simp add: remount_parsed [OF assms] q)
  have "length (tensor_id t) > length (tensor_id src)"
    by (simp add: reinterpretTensor_fields(4) [OF q])
  then have "tensor_id t \<noteq> tensor_id src" by auto
  with r reinterpretTensor_fields [OF q] show ?thesis by simp
qed

theorem remount_frame_witness:
  "parsePath ''/models/nlp/precise'' =
     Inr \<lparr>domain = ''nlp'', task = ''precise'', precision = High, realtime = False, complexity = 10\<rparr>
   \<and> (\<exists>t h' field'.
        remount id 7 [Uint8Array [0, 128, 255]] \<lparr>mountedTensors = Map.empty\<rparr>
          \<lparr>tensor_id = ''tensor_1_abc'', data = 0, shape = [3], dtype = Uint8,
            architecture = \<lparr>type = Cnn, layers = 10, parameters = 131072, optimization = Speed\<rparr>,
            quantization = \<lparr>bits = B8, quant_method = Linear, preserveAccuracy = False\<rparr>\<rparr>
          ''/models/nlp/precise'' = Inr (t, h', field')
        \<and> shape t = [3]
        \<and> tensor_id t \<noteq> ''tensor_1_abc''
        \<and> data t = 1 \<and> length h' = 2
        \<and> deref h' 0 = Uint8Array [0, 128, 255]
        \<and> mountedTensors field' ''/models/nlp/precise'' = Some t)"
proof -
  let ?src = "\<lparr>tensor_id = ''tensor_1_abc'', data = 0, shape = [3], dtype = Uint8,
            architecture = \<lparr>type = Cnn, layers = 10, parameters = 131072, optimization = Speed\<rparr>,
            quantization = \<lparr>bits = B8, quant_method = Linear, preserveAccuracy = False\<rparr>\<rparr>"
  from remount_frame [OF parsePath_nlp_precise, of id 7 "[Uint8Array [0, 128, 255]]"
      "\<lparr>mountedTensors = Map.empty\<rparr>" ?src]
  obtain t h' field' where
    r: "remount id 7 [Uint8Array [0, 128, 255]] \<lparr>mountedTensors = Map.empty\<rparr> ?src
          ''/models/nlp/precise'' = Inr (t, h', field')"
    and f: "shape t = shape ?src" "tensor_id t \<noteq> tensor_id ?src"
      "data t = length [Uint8Array [0, 128, 255]]"
      "length h' = Suc (length [Uint8Array [0, 128, 255]])"
      "\<forall>a < length [Uint8Array [0, 128, 255]]. deref h' a = deref [Uint8Array [0, 128, 255]] a"
      "mountedTensors field' ''/models/nlp/precise'' = Some t"
    by blast
  from f(5) have "deref h' 0 = Uint8Array [0, 128, 255]" by (simp add: deref_def)
  with r f parsePath_nlp_precise show ?thesis by auto
qed

section \<open>Persona agent: rejected spawns\<close>

text \<open>C2: a request whose recursionLevel is at least traits.recursionDepth makes
  spawnRepository fail with the recursion-limit error, and the call returns the agent it
  was given: registry, memory store (embeddings, context window, semantic graph), mount
  table and every other field are unchanged, and neither the clock nor the random source
  has been read.\<close>

theorem spawnRepository_rejected:
  assumes "recursionLevel request \<ge> recursionDepth (traits agent)"
  shows "spawnRepository fround token w agent request =
           (Inl (RecursionLimitError (recursionDepth (traits agent))), w, agent)"
  using assms by (simp add: spawnRepository_def)

theorem spawnRepository_rejected_witness:
  "recursionLevel \<lparr>spawn_intent = ''Create a complex system'', technologies = [''react''],
       repo_architecture = Fullstack, parentRepo = None, recursionLevel = 3\<rparr>
     \<ge> recursionDepth (traits mock_agent)
   \<and> spawnRepository id mock_token mock_world mock_agent
       \<lparr>spawn_intent = ''Create a complex system'', technologies = [''react''],
         repo_architecture = Fullstack, parentRepo = None, recursionLevel = 3\<rparr>
     = (Inl (RecursionLimitError 3), mock_world, mock_agent)"
  using spawnRepository_rejected [of mock_agent
      "\<lparr>spawn_intent = ''Create a complex system'', technologies = [''react''],
         repo_architecture = Fullstack, parentRepo = None, recursionLevel = 3\<rparr>"
      id mock_token mock_world]
  by (simp add: mock_agent_def mockTraits_def)

section \<open>Persona agent: the Decide phase\<close>

text \<open>C8: the Decide phase decides a spawn exactly when boltIntegration is set, the task
  is creation or the domain is development, and the complexity exceeds 6; a decided spawn
  carries exactly one request, of recursionLevel 0, and no request is built otherwise.\<close>

theorem decide_spawn:
  "shouldSpawnRepo (fst (decideResponseStrategy w agent ci)) =
     (boltIntegration (traits agent)
      \<and> (task ci = ''creation'' \<or> domain ci = ''development'')
      \<and> complexity ci > 6)
   \<and> (if shouldSpawnRepo (fst (decideResponseStrategy w agent ci))
       then \<exists>req. spawnRequests (fst (decideResponseStrategy w agent ci)) = [req]
                 \<and> recursionLevel req = 0
       else spawnRequests (fst (decideResponseStrategy w agent ci)) = [])"
  by (simp add: decideResponseStrategy_def date_now_def Let_def)

lemma parse_create: "parseIntentToCognitive ''Create a React application'' =
   \<lparr>domain = ''development'', task = ''creation'', precision = Medium, realtime = False, complexity = 9\<rparr>"
  by code_simp

theorem decide_spawn_witness:
  "shouldSpawnRepo (fst (decideResponseStrategy mock_world mock_agent
      (parseIntentToCognitive ''Create a React application'')))
   \<and> spawnRequests (fst (decideResponseStrategy mock_world mock_agent
      (parseIntentToCognitive ''Create a React application'')))
     = [\<lparr>spawn_intent = ''Create repository for development creation'',
         technologies = [''typescript'', ''node.js'', ''react'', ''vite''],
         repo_architecture = Fullstack, parentRepo = None, recursionLevel = 0\<rparr>]"
  using decide_spawn [of mock_world mock_agent "parseIntentToCognitive ''Create a React application''"]
  by (simp add: parse_create decideResponseStrategy_def date_now_def Let_def mock_agent_def
      mockTraits_def inferTechnologies_def inferArchitecture_def)

section \<open>Persona agent: the context window\<close>

lemma map_of_fold_delete:
  "map_of (fold AList.delete ks al) k = (if k \<in> set ks then None else map_of al k)"
  by (induction ks arbitrary: al) (auto simp: delete_conv')

lemma insert_context_window:
  "contextWindow (snd (insert_context fround w m ctx)) = contextWindow m @ ctx"
  by (induction ctx arbitrary: w m) (auto simp: generateEmbedding_def)

lemma insert_context_keys:
  "fst ` set (embeddings (snd (insert_context fround w m ctx))) = fst ` set (embeddings m) \<union> set ctx"
  by (induction ctx arbitrary: w m) (auto simp: generateEmbedding_def dom_update)

lemma insert_context_rest:
  "semanticGraph (snd (insert_context fround w m ctx)) = semanticGraph m"
  "retrievalThreshold (snd (insert_context fround w m ctx)) = retrievalThreshold m"
  by (induction ctx arbitrary: w m) (auto simp: generateEmbedding_def)

lemma limit_context_window_length:
  "length (contextWindow (limit_context_window m)) \<le> 100"
  by (simp add: limit_context_window_def Let_def)

lemma orient_ragMemory:
  "ragMemory (snd (orientCognitiveModel fround w agent ci ctx)) =
     limit_context_window (snd (insert_context fround
        (snd (date_now (snd (generateEmbeddings fround w ctx)))) (ragMemory agent) ctx))"
  by (simp add: orientCognitiveModel_def Let_def split: prod.splits)

lemma keys_delete: "fst ` set (AList.delete k al) = fst ` set al - {k}"
proof -
  have "set (map fst (AList.delete k al)) = set (removeAll k (map fst al))"
    by (simp only: delete_keys)
  then show ?thesis by simp
qed

lemma keys_fold_delete:
  "fst ` set (fold AList.delete ks al) = fst ` set al - set ks"
  by (induction ks arbitrary: al) (auto simp: keys_delete)

lemma limit_context_window_memory:
  "contextWindow (limit_context_window m) =
     (if length (contextWindow m) > 100
      then drop (length (contextWindow m) - 50) (contextWindow m) else contextWindow m)"
  "fst ` set (embeddings (limit_context_window m)) =
     (if length (contextWindow m) > 100
      then fst ` set (embeddings m) - set (take (length (contextWindow m) - 50) (contextWindow m))
      else fst ` set (embeddings m))"
  by (simp_all add: limit_context_window_def Let_def keys_fold_delete)

lemma limit_context_window_evicted:
  "length (contextWindow m) > 100 \<Longrightarrow>
   k \<in> set (take (length (contextWindow m) - 50) (contextWindow m)) \<Longrightarrow>
   map_of (embeddings (limit_context_window m)) k = None"
  by (simp add: limit_context_window_def Let_def map_of_fold_delete)

text \<open>The memory after the Orient phase, in terms of the memory before it.\<close>

lemma orient_memory:
  "contextWindow (ragMemory (snd (orientCognitiveModel fround w agent ci ctx))) =
     (if length (contextWindow (ragMemory agent) @ ctx) > 100
      then drop (length (contextWindow (ragMemory agent) @ ctx) - 50)
             (contextWindow (ragMemory agent) @ ctx)
      else contextWindow (ragMemory agent) @ ctx)"
  "embedding_keys (snd (orientCognitiveModel fround w agent ci ctx)) =
     (if length (contextWindow (ragMemory agent) @ ctx) > 100
      then (embedding_keys agent \<union> set ctx)
           - set (take (length (contextWindow (ragMemory agent) @ ctx) - 50)
                   (contextWindow (ragMemory agent) @ ctx))
      else embedding_keys agent \<union> set ctx)"
proof -
  define m where "m = snd (insert_context fround
        (snd (date_now (snd (generateEmbeddings fround w ctx)))) (ragMemory agent) ctx)"
  have r: "ragMemory (snd (orientCognitiveModel fround w agent ci ctx)) = limit_context_window m"
    unfolding m_def by (rule orient_ragMemory)
  have win: "contextWindow m = contextWindow (ragMemory agent) @ ctx"
    unfolding m_def by (rule insert_context_window)
  have ks: "fst ` set (embeddings m) = embedding_keys agent \<union> set ctx"
    unfolding m_def by (rule insert_context_keys)
  show "contextWindow (ragMemory (snd (orientCognitiveModel fround w agent ci ctx))) =
     (if length (contextWindow (ragMemory agent) @ ctx) > 100
      then drop (length (contextWindow (ragMemory agent) @ ctx) - 50)
             (contextWindow (ragMemory agent) @ ctx)
      else contextWindow (ragMemory agent) @ ctx)"
    unfolding r limit_context_window_memory(1) win ..
  show "embedding_keys (snd (orientCognitiveModel fround w agent ci ctx)) =
     (if length (contextWindow (ragMemory agent) @ ctx) > 100
      then (embedding_keys agent \<union> set ctx)
           - set (take (length (contextWindow (ragMemory agent) @ ctx) - 50)
                   (contextWindow (ragMemory agent) @ ctx))
      else embedding_keys agent \<union> set ctx)"
    unfolding r limit_context_window_memory(2) win ks ..
qed

lemma orient_evicted:
  assumes "length (contextWindow (ragMemory agent) @ ctx) > 100"
    and "k \<in> set (take (length (contextWindow (ragMemory agent) @ ctx) - 50)
                    (contextWindow (ragMemory agent) @ ctx))"
  shows "map_of (embeddings (ragMemory (snd (orientCognitiveModel fround w agent ci ctx)))) k = None"
proof -
  define m where "m = snd (insert_context fround
        (snd (date_now (snd (generateEmbeddings fround w ctx)))) (ragMemory agent) ctx)"
  have r: "ragMemory (snd (orientCognitiveModel fround w agent ci ctx)) = limit_context_window m"
    unfolding m_def by (rule orient_ragMemory)
  have win: "contextWindow m = contextWindow (ragMemory agent) @ ctx"
    unfolding m_def by (rule insert_context_window)
  from assms show ?thesis unfolding r win [symmetric] by (rule limit_context_window_evicted)
qed

section \<open>Persona agent: what each phase leaves unchanged\<close>

lemma spawnRepository_frame:
  "(traits (snd (snd (spawnRepository fround token w agent request))) = traits agent)
   \<and> (quantumField (snd (snd (spawnRepository fround token w agent request))) = quantumField agent)
   \<and> (contextWindow (ragMemory (snd (snd (spawnRepository fround token w agent request))))
     = contextWindow (ragMemory agent))
   \<and> (fst ` set (embeddings (ragMemory agent))
     \<subseteq> fst ` set (embeddings (ragMemory (snd (snd (spawnRepository fround token w agent request))))))"
  by (simp add: spawnRepository_def Let_def split_beta createRAGExtension_def
      updateSelfModelFromSpawning_def dom_update subset_insertI2)

lemma spawn_each_frame:
  "traits (snd (snd (spawn_each fround token w agent reqs acc))) = traits agent
   \<and> quantumField (snd (snd (spawn_each fround token w agent reqs acc))) = quantumField agent
   \<and> contextWindow (ragMemory (snd (snd (spawn_each fround token w agent reqs acc))))
     = contextWindow (ragMemory agent)
   \<and> fst ` set (embeddings (ragMemory agent))
     \<subseteq> fst ` set (embeddings (ragMemory (snd (snd (spawn_each fround token w agent reqs acc)))))"
proof (induction reqs arbitrary: w agent acc)
  case Nil
  show ?case by simp
next
  case (Cons req reqs)
  obtain r w1 agent1 where s: "spawnRepository fround token w agent req = (r, w1, agent1)"
    by (cases "spawnRepository fround token w agent req")
  have f: "traits agent1 = traits agent" "quantumField agent1 = quantumField agent"
    "contextWindow (ragMemory agent1) = contextWindow (ragMemory agent)"
    "fst ` set (embeddings (ragMemory agent)) \<subseteq> fst ` set (embeddings (ragMemory agent1))"
    using spawnRepository_frame [of fround token w agent req] by (simp_all add: s)
  obtain spawned resp where acc: "acc = (spawned, resp)" by (cases acc)
  show ?case
  proof (cases r)
    case (Inl e)
    with s f acc show ?thesis by simp
  next
    case (Inr res)
    let ?acc' = "(spawned @ [req], resp @ [CHR 0x0A] @ ''Spawned repository: '' @ repoId res)"
    have e: "spawn_each fround token w agent (req # reqs) acc
               = spawn_each fround token w1 agent1 reqs ?acc'"
      using s acc Inr by simp
    from Cons.IH [of w1 agent1 ?acc'] f show ?thesis unfolding e by auto
  qed
qed

lemma updateRAGMemory_frame:
  "(traits (snd (snd (updateRAGMemory fround w agent resp))) = traits agent)
   \<and> (quantumField (snd (snd (updateRAGMemory fround w agent resp))) = quantumField agent)
   \<and> (contextWindow (ragMemory (snd (snd (updateRAGMemory fround w agent resp))))
     = contextWindow (ragMemory agent))
   \<and> (fst ` set (embeddings (ragMemory agent))
     \<subseteq> fst ` set (embeddings (ragMemory (snd (snd (updateRAGMemory fround w agent resp))))))"
  by (simp add: updateRAGMemory_def Let_def split_beta dom_update subset_insertI)

lemma executeDecision_frame:
  "traits (snd (snd (executeDecision fround token w agent d))) = traits agent
   \<and> quantumField (snd (snd (executeDecision fround token w agent d))) = quantumField agent
   \<and> contextWindow (ragMemory (snd (snd (executeDecision fround token w agent d))))
     = contextWindow (ragMemory agent)
   \<and> fst ` set (embeddings (ragMemory agent))
     \<subseteq> fst ` set (embeddings (ragMemory (snd (snd (executeDecision fround token w agent d)))))"
proof (cases "shouldSpawnRepo d")
  case True
  obtain r w2 agent1 where s: "spawn_each fround token (snd (date_now w)) agent (spawnRequests d) ([], []) = (r, w2, agent1)"
    by (cases "spawn_each fround token (snd (date_now w)) agent (spawnRequests d) ([], [])")
  have f: "traits agent1 = traits agent" "quantumField agent1 = quantumField agent"
    "contextWindow (ragMemory agent1) = contextWindow (ragMemory agent)"
    "fst ` set (embeddings (ragMemory agent)) \<subseteq> fst ` set (embeddings (ragMemory agent1))"
    using spawn_each_frame [of fround token "snd (date_now w)" agent "spawnRequests d" "([], [])"]
    by (simp_all add: s)
  show ?thesis
  proof (cases r)
    case (Inl e)
    with True s f show ?thesis by (simp add: executeDecision_def split_beta)
  next
    case (Inr p)
    with True s f updateRAGMemory_frame [of fround w2 agent1 "snd p"]
    show ?thesis by (auto simp: executeDecision_def split_beta Let_def)
  qed
next
  case False
  with updateRAGMemory_frame [of fround "snd (date_now w)" agent "generateDirectResponse agent d"]
  show ?thesis by (simp add: executeDecision_def split_beta Let_def)
qed

lemma orient_frame:
  "traits (snd (orientCognitiveModel fround w agent ci ctx)) = traits agent
   \<and> quantumField (snd (orientCognitiveModel fround w agent ci ctx)) = quantumField agent
   \<and> spawnedRepos (snd (orientCognitiveModel fround w agent ci ctx)) = spawnedRepos agent"
  by (simp add: orientCognitiveModel_def Let_def split_beta)

lemma decide_frame:
  "traits (snd (snd (decideResponseStrategy w agent ci))) = traits agent
   \<and> quantumField (snd (snd (decideResponseStrategy w agent ci))) = quantumField agent
   \<and> ragMemory (snd (snd (decideResponseStrategy w agent ci))) = ragMemory agent"
  by (simp add: decideResponseStrategy_def Let_def split_beta)

lemma adaptSelfModel_frame:
  "traits (snd (snd (adaptSelfModel dround w agent res)))
     = (traits agent)\<lparr>adaptationRate := dmul dround (adaptationRate (traits agent)) (Fin double_1_1)\<rparr>
   \<and> quantumField (snd (snd (adaptSelfModel dround w agent res))) = quantumField agent
   \<and> ragMemory (snd (snd (adaptSelfModel dround w agent res))) = ragMemory agent"
  by (simp add: adaptSelfModel_def analyzeResultSuccess_def Let_def split_beta)

lemma processIntent_frame:
  "traits (snd (snd (processIntent fround dround token w agent text context))) =
     (if isl (fst (processIntent fround dround token w agent text context)) then traits agent
      else (traits agent)\<lparr>adaptationRate :=
             dmul dround (adaptationRate (traits agent)) (Fin double_1_1)\<rparr>)
   \<and> quantumField (snd (snd (processIntent fround dround token w agent text context))) = quantumField agent
   \<and> contextWindow (ragMemory (snd (snd (processIntent fround dround token w agent text context))))
       = contextWindow (ragMemory (after_orient fround w agent text context))
   \<and> fst ` set (embeddings (ragMemory (after_orient fround w agent text context)))
       \<subseteq> fst ` set (embeddings (ragMemory (snd (snd (processIntent fround dround token w agent text context)))))"
proof -
  let ?ci = "parseIntentToCognitive text"
  let ?a1 = "agent\<lparr>oodaLoop := (oodaLoop agent)\<lparr>observe :=
                     Some \<lparr>observed_intent = text, observed_context = context,
                           observed_cognitiveIntent = ?ci,
                           observed_timestamp = fst (date_now w)\<rparr>\<rparr>\<rparr>"
  obtain w2 a2 where o: "orientCognitiveModel fround (snd (date_now w)) ?a1 ?ci context = (w2, a2)"
    by (cases "orientCognitiveModel fround (snd (date_now w)) ?a1 ?ci context")
  obtain d w3 a3 where dd: "decideResponseStrategy w2 a2 ?ci = (d, w3, a3)"
    by (cases "decideResponseStrategy w2 a2 ?ci")
  obtain r w4 a4 where e: "executeDecision fround token w3 a3 d = (r, w4, a4)"
    by (cases "executeDecision fround token w3 a3 d")
  have a2: "a2 = after_orient fround w agent text context"
    by (simp add: after_orient_def o)
  have f2: "traits a2 = traits agent" "quantumField a2 = quantumField agent"
    using orient_frame [of fround "snd (date_now w)" "?a1" "?ci" "context"] by (simp_all add: o)
  have f3: "traits a3 = traits a2" "quantumField a3 = quantumField a2" "ragMemory a3 = ragMemory a2"
    using decide_frame [of w2 a2 "?ci"] by (simp_all add: dd)
  have f4: "traits a4 = traits a3" "quantumField a4 = quantumField a3"
    "contextWindow (ragMemory a4) = contextWindow (ragMemory a3)"
    "fst ` set (embeddings (ragMemory a3)) \<subseteq> fst ` set (embeddings (ragMemory a4))"
    using executeDecision_frame [of fround token w3 a3 d] by (simp_all add: e)
  show ?thesis
  proof (cases r)
    case (Inl err)
    have "processIntent fround dround token w agent text context = (Inl err, w4, a4)"
      by (simp add: processIntent_def Let_def split_beta o dd e Inl)
    with f2 f3 f4 a2 show ?thesis by simp
  next
    case (Inr res)
    have "processIntent fround dround token w agent text context =
        (Inr \<lparr>intent_response = response res, intent_spawnedRepos = result_spawnedRepos res,
              intent_memoryUpdates = memoryUpdates res,
              intent_adaptations = fst (adaptSelfModel dround w4 a4 res)\<rparr>,
         fst (snd (adaptSelfModel dround w4 a4 res)), snd (snd (adaptSelfModel dround w4 a4 res)))"
      by (simp add: processIntent_def Let_def split_beta o dd e Inr)
    with f2 f3 f4 a2 adaptSelfModel_frame [of dround w4 a4 res] show ?thesis by simp
  qed
qed

lemma decide_shouldSpawnRepo:
  "shouldSpawnRepo (fst (decideResponseStrategy w agent ci)) =
     (boltIntegration (traits agent)
      \<and> (task ci = ''creation'' \<or> domain ci = ''development'')
      \<and> complexity ci > 6)"
  by (simp add: decideResponseStrategy_def date_now_def Let_def)

lemma executeDecision_direct_completes:
  "\<not> shouldSpawnRepo d \<Longrightarrow> \<not> isl (fst (executeDecision fround token w agent d))"
  by (simp add: executeDecision_def Let_def split_beta)

lemma processIntent_direct_completes:
  assumes "\<not> (boltIntegration (traits agent)
      \<and> (task (parseIntentToCognitive text) = ''creation''
          \<or> domain (parseIntentToCognitive text) = ''development'')
      \<and> complexity (parseIntentToCognitive text) > 6)"
  shows "\<not> isl (fst (processIntent fround dround token w agent text ctx))"
proof -
  let ?ci = "parseIntentToCognitive text"
  let ?a1 = "agent\<lparr>oodaLoop := (oodaLoop agent)\<lparr>observe :=
                     Some \<lparr>observed_intent = text, observed_context = ctx,
                           observed_cognitiveIntent = ?ci,
                           observed_timestamp = fst (date_now w)\<rparr>\<rparr>\<rparr>"
  obtain w2 a2 where o: "orientCognitiveModel fround (snd (date_now w)) ?a1 ?ci ctx = (w2, a2)"
    by (cases "orientCognitiveModel fround (snd (date_now w)) ?a1 ?ci ctx")
  obtain d w3 a3 where dd: "decideResponseStrategy w2 a2 ?ci = (d, w3, a3)"
    by (cases "decideResponseStrategy w2 a2 ?ci")
  have "traits a2 = traits agent"
    using orient_frame [of fround "snd (date_now w)" "?a1" "?ci" ctx] by (simp add: o)
  with assms decide_shouldSpawnRepo [of w2 a2 "?ci"] dd have "\<not> shouldSpawnRepo d" by simp
  from executeDecision_direct_completes [OF this, of fround token w3 a3]
  obtain res w4 a4 where "executeDecision fround token w3 a3 d = (Inr res, w4, a4)"
    by (cases "executeDecision fround token w3 a3 d"; cases "fst (executeDecision fround token w3 a3 d)") auto
  then show ?thesis
    by (simp add: processIntent_def Let_def split_beta o dd)
qed

lemma retrieveFromRAG_agent:
  "snd (snd (retrieveFromRAG fround w agent query maxResults)) = agent"
  by (simp add: retrieveFromRAG_def Let_def split_beta)

lemma performSelfModification_frame:
  "adaptationRate (traits (snd (performSelfModification dround agent))) = adaptationRate (traits agent)
   \<and> ragMemory (snd (performSelfModification dround agent)) = ragMemory agent
   \<and> quantumField (snd (performSelfModification dround agent)) = quantumField agent
   \<and> trait_precision (traits (snd (performSelfModification dround agent)))
       = trait_precision (traits agent)
   \<and> creativity (traits (snd (performSelfModification dround agent)))
       = jmin (Fin 1) (dmul dround (creativity (traits agent)) (Fin double_1_05))"
  by (simp add: performSelfModification_def evolveTraits_def analyzePerformance_def Let_def split_beta)

lemma apply_operation_window:
  assumes "length (contextWindow (ragMemory agent)) \<le> 100"
  shows "length (contextWindow (ragMemory (snd (snd (apply_operation fround dround token w agent x))))) \<le> 100"
proof (cases x)
  case (ProcessIntent t ctx)
  have "length (contextWindow (ragMemory (after_orient fround w agent t ctx))) \<le> 100"
    unfolding after_orient_def orient_ragMemory by (rule limit_context_window_length)
  with processIntent_frame [of fround dround token w agent t ctx] ProcessIntent
  show ?thesis by (simp add: split_beta)
next
  case (SpawnRepository request)
  with spawnRepository_frame [of fround token w agent request] assms
  show ?thesis by (simp add: split_beta)
next
  case (RetrieveFromRAG query maxResults)
  with assms show ?thesis by (simp add: split_beta retrieveFromRAG_agent)
next
  case PerformSelfModification
  with assms show ?thesis by (simp add: performSelfModification_frame)
qed

lemma run_operations_window:
  "length (contextWindow (ragMemory agent)) \<le> 100 \<Longrightarrow>
   length (contextWindow (ragMemory (snd (snd (run_operations fround dround token w agent ops))))) \<le> 100"
proof (induction ops arbitrary: w agent)
  case Nil
  then show ?case by simp
next
  case (Cons x xs)
  obtain c w1 a1 where a: "apply_operation fround dround token w agent x = (c, w1, a1)"
    by (cases "apply_operation fround dround token w agent x")
  from apply_operation_window [OF Cons.prems, of fround dround token w x] a
  have "length (contextWindow (ragMemory a1)) \<le> 100" by simp
  from Cons.IH [OF this, of w1] show ?case by (simp add: a split_beta)
qed

text \<open>C3: after the Orient phase the context window holds at most 100 keys, whatever the
  state before and the context inserted. When the window has grown beyond 100, the oldest
  (length - 50) keys are gone from it and none of them has an embedding left; otherwise the
  window is the old one followed by the context. No other phase and no other method
  touches the window, so the bound holds after every sequence of calls.\<close>

theorem orient_window_bounded:
  "length (contextWindow (ragMemory (snd (orientCognitiveModel fround w agent ci ctx)))) \<le> 100
   \<and> (let win = contextWindow (ragMemory agent) @ ctx;
          agent' = snd (orientCognitiveModel fround w agent ci ctx)
      in if length win > 100
         then contextWindow (ragMemory agent') = drop (length win - 50) win
              \<and> (\<forall>k \<in> set (take (length win - 50) win).
                     map_of (embeddings (ragMemory agent')) k = None)
         else contextWindow (ragMemory agent') = win)
   \<and> (length (contextWindow (ragMemory agent)) \<le> 100 \<longrightarrow>
        length (contextWindow (ragMemory (snd (snd (run_operations fround dround token w agent ops)))))
          \<le> 100)"
proof (intro conjI)
  show "length (contextWindow (ragMemory (snd (orientCognitiveModel fround w agent ci ctx)))) \<le> 100"
    unfolding orient_ragMemory by (rule limit_context_window_length)
  show "let win = contextWindow (ragMemory agent) @ ctx;
          agent' = snd (orientCognitiveModel fround w agent ci ctx)
      in if length win > 100
         then contextWindow (ragMemory agent') = drop (length win - 50) win
              \<and> (\<forall>k \<in> set (take (length win - 50) win).
                     map_of (embeddings (ragMemory agent')) k = None)
         else contextWindow (ragMemory agent') = win"
  proof (cases "length (contextWindow (ragMemory agent) @ ctx) > 100")
    case True
    have e: "\<forall>k \<in> set (take (length (contextWindow (ragMemory agent) @ ctx) - 50)
                         (contextWindow (ragMemory agent) @ ctx)).
        map_of (embeddings (ragMemory (snd (orientCognitiveModel fround w agent ci ctx)))) k = None"
      using orient_evicted [OF True] by blast
    have "contextWindow (ragMemory (snd (orientCognitiveModel fround w agent ci ctx)))
        = drop (length (contextWindow (ragMemory agent) @ ctx) - 50)
            (contextWindow (ragMemory agent) @ ctx)"
      using True by (simp only: orient_memory(1) if_True)
    with e True show ?thesis unfolding Let_def by (simp only: if_True simp_thms)
  next
    case False
    have "contextWindow (ragMemory (snd (orientCognitiveModel fround w agent ci ctx)))
        = contextWindow (ragMemory agent) @ ctx"
      using False by (simp only: orient_memory(1) if_False)
    with False show ?thesis unfolding Let_def by (simp only: if_False)
  qed
  show "length (contextWindow (ragMemory agent)) \<le> 100 \<longrightarrow>
        length (contextWindow (ragMemory (snd (snd (run_operations fround dround token w agent ops)))))
          \<le> 100"
    using run_operations_window by blast
qed

theorem orient_window_bounded_witness:
  "100 < length (replicate 100 ''old'' @ [''new''])
   \<and> contextWindow (ragMemory (snd (orientCognitiveModel id mock_world
         (mock_agent\<lparr>ragMemory := initializeRAGMemory\<lparr>embeddings := [(''old'', [1])],
            contextWindow := replicate 100 ''old''\<rparr>\<rparr>)
         (parseIntentToCognitive ''hello'') [''new''])))
       = replicate 49 ''old'' @ [''new'']
   \<and> map_of (embeddings (ragMemory (snd (orientCognitiveModel id mock_world
         (mock_agent\<lparr>ragMemory := initializeRAGMemory\<lparr>embeddings := [(''old'', [1])],
            contextWindow := replicate 100 ''old''\<rparr>\<rparr>)
         (parseIntentToCognitive ''hello'') [''new''])))) ''old'' = None"
  using orient_window_bounded [of id mock_world
      "mock_agent\<lparr>ragMemory := initializeRAGMemory\<lparr>embeddings := [(''old'', [1])],
            contextWindow := replicate 100 ''old''\<rparr>\<rparr>"
      "parseIntentToCognitive ''hello''" "[''new'']" binary64 mock_token "[]"]
  by (simp add: Let_def)

section \<open>Persona agent: the adaptation rate\<close>

lemma double_1_1_gt_1: "1 < double_1_1"
  by (simp add: double_1_1_def)

lemma growth_gt_1: "1 < growth"
  by (simp add: growth_def double_1_1_def)

lemma dmul_Fin: "dmul dround (Fin x) (Fin y) = dround (x * y)"
  by (simp add: dmul_def)

lemma dmul_PInf: "dmul dround PInf (Fin double_1_1) = PInf"
  using double_1_1_gt_1 by (simp add: dmul_def)

lemma jmin_cap: "\<not> jgt (jmin (Fin 1) a) (Fin 1)"
  by (cases a) simp_all

lemma apply_operation_traits:
  "adaptationRate (traits (snd (snd (apply_operation fround dround token w agent x)))) =
     (if fst (apply_operation fround dround token w agent x)
      then dmul dround (adaptationRate (traits agent)) (Fin double_1_1)
      else adaptationRate (traits agent))
   \<and> trait_precision (traits (snd (snd (apply_operation fround dround token w agent x))))
       = trait_precision (traits agent)
   \<and> (creativity (traits (snd (snd (apply_operation fround dround token w agent x))))
         = creativity (traits agent)
      \<or> \<not> jgt (creativity (traits (snd (snd (apply_operation fround dround token w agent x)))))
              (Fin 1))"
proof (cases x)
  case (ProcessIntent t ctx)
  with processIntent_frame [of fround dround token w agent t ctx]
  show ?thesis by (simp add: split_beta)
next
  case (SpawnRepository request)
  with spawnRepository_frame [of fround token w agent request]
  show ?thesis by (simp add: split_beta)
next
  case (RetrieveFromRAG query maxResults)
  then show ?thesis by (simp add: split_beta retrieveFromRAG_agent)
next
  case PerformSelfModification
  then show ?thesis by (simp add: performSelfModification_frame jmin_cap)
qed

lemma run_operations_caps:
  "trait_precision (traits (snd (snd (run_operations fround dround token w agent ops))))
     = trait_precision (traits agent)
   \<and> (\<not> jgt (creativity (traits agent)) (Fin 1) \<longrightarrow>
        \<not> jgt (creativity (traits (snd (snd (run_operations fround dround token w agent ops)))))
            (Fin 1))"
proof (induction ops arbitrary: w agent)
  case Nil
  show ?case by simp
next
  case (Cons x xs)
  obtain c w1 a1 where a: "apply_operation fround dround token w agent x = (c, w1, a1)"
    by (cases "apply_operation fround dround token w agent x")
  from apply_operation_traits [of fround dround token w agent x] a
  have "trait_precision (traits a1) = trait_precision (traits agent)"
    and "creativity (traits a1) = creativity (traits agent) \<or> \<not> jgt (creativity (traits a1)) (Fin 1)"
    by simp_all
  with Cons.IH [of w1 a1] show ?case by (auto simp: a split_beta)
qed

lemma stored_at_least_step:
  assumes b: "binary64_like dround lo hi" and r: "0 \<le> r"
    and s: "stored_at_least dround r a"
  shows "stored_at_least dround r (dmul dround a (Fin double_1_1))"
proof -
  from s consider "a = PInf" | y where "a = Fin y" "r \<le> y" "dround y = Fin y"
    unfolding stored_at_least_def by blast
  then show ?thesis
  proof cases
    case 1
    then show ?thesis by (simp add: dmul_PInf stored_at_least_def)
  next
    case 2
    from 2(2) r have "0 \<le> y" by simp
    with double_1_1_gt_1 have le: "y \<le> y * double_1_1"
      by (simp add: mult_le_cancel_left1)
    from b have m: "\<forall>x y. x \<le> y \<longrightarrow> jge (dround y) (dround x)"
      and p: "\<forall>x y. dround x = Fin y \<longrightarrow> dround y = Fin y"
      unfolding binary64_like_def by blast+
    from m le 2(3) have j: "jge (dround (y * double_1_1)) (Fin y)" by metis
    show ?thesis
    proof (cases "dround (y * double_1_1)")
      case (Fin z)
      with j have "y \<le> z" by simp
      moreover from p Fin have "dround z = Fin z" by blast
      ultimately show ?thesis using 2 Fin by (simp add: dmul_Fin stored_at_least_def)
    next
      case PInf
      with 2 show ?thesis by (simp add: dmul_Fin stored_at_least_def)
    next
      case NInf
      with j show ?thesis by simp
    next
      case NaN
      with j show ?thesis by simp
    qed
  qed
qed

lemma run_operations_stored_at_least:
  assumes b: "binary64_like dround lo hi" and r: "0 \<le> r"
  shows "stored_at_least dround r (adaptationRate (traits agent)) \<Longrightarrow>
    stored_at_least dround r
      (adaptationRate (traits (snd (snd (run_operations fround dround token w agent ops)))))"
proof (induction ops arbitrary: w agent)
  case Nil
  then show ?case by simp
next
  case (Cons x xs)
  obtain c w1 a1 where a: "apply_operation fround dround token w agent x = (c, w1, a1)"
    by (cases "apply_operation fround dround token w agent x")
  from apply_operation_traits [of fround dround token w agent x] a
  have "adaptationRate (traits a1) =
      (if c then dmul dround (adaptationRate (traits agent)) (Fin double_1_1)
       else adaptationRate (traits agent))" by simp
  with Cons.prems stored_at_least_step [OF b r, of "adaptationRate (traits agent)"]
  have "stored_at_least dround r (adaptationRate (traits a1))" by simp
  from Cons.IH [OF this, of w1] show ?case by (simp add: a split_beta)
qed

lemma stored_at_least_jge: "stored_at_least dround r a \<Longrightarrow> jge a (Fin r)"
  unfolding stored_at_least_def by auto

lemma rounded_product_increases:
  assumes b: "binary64_like dround lo hi" and r: "lo \<le> r" "r * double_1_1 \<le> hi"
  shows "\<exists>z. dround (r * double_1_1) = Fin z \<and> r * growth \<le> z \<and> r < z"
proof -
  from b have lo: "0 < lo"
    and acc: "\<forall>x. lo \<le> x \<and> x \<le> hi \<longrightarrow> (\<exists>y. dround x = Fin y \<and> \<bar>y - x\<bar> \<le> x / 2 ^ 53)"
    unfolding binary64_like_def by blast+
  from lo r(1) have rp: "0 < r" by simp
  with double_1_1_gt_1 have "r \<le> r * double_1_1" by (simp add: mult_le_cancel_left1)
  with r have "lo \<le> r * double_1_1 \<and> r * double_1_1 \<le> hi" by simp
  with acc obtain z where z: "dround (r * double_1_1) = Fin z"
    and e: "\<bar>z - r * double_1_1\<bar> \<le> r * double_1_1 / 2 ^ 53" by blast
  have "r * growth = r * double_1_1 - r * double_1_1 / 2 ^ 53"
    by (simp add: growth_def algebra_simps)
  with e have g: "r * growth \<le> z" by linarith
  from rp growth_gt_1 have "r < r * growth" by simp
  with g z show ?thesis by auto
qed

lemma grown_to_step:
  assumes b: "binary64_like dround lo hi" and r0: "lo \<le> r0" "r0 \<le> hi"
    and g: "grown_to dround hi r0 n a"
  shows "grown_to dround hi r0 (Suc n) (dmul dround a (Fin double_1_1))"
proof -
  from b have lo: "0 < lo"
    and m: "\<forall>x y. x \<le> y \<longrightarrow> jge (dround y) (dround x)"
    and p: "\<forall>x y. dround x = Fin y \<longrightarrow> dround y = Fin y"
    and top: "dround hi = Fin hi"
    and ovf: "\<forall>x. hi * double_1_1 \<le> x \<longrightarrow> dround x = PInf"
    unfolding binary64_like_def by blast+
  from g consider "a = PInf"
    | y where "a = Fin y" "dround y = Fin y" "r0 \<le> y" "min hi (r0 * growth ^ n) \<le> y"
        "\<forall>m<n. r0 * growth ^ m < hi"
    unfolding grown_to_def by blast
  then show ?thesis
  proof cases
    case 1
    then show ?thesis by (simp add: dmul_PInf grown_to_def)
  next
    case 2
    from lo r0(1) 2(3) have yp: "0 < y" by simp
    have d: "dmul dround a (Fin double_1_1) = dround (y * double_1_1)"
      using 2(1) by (simp add: dmul_Fin)
    show ?thesis
    proof (cases "hi \<le> r0 * growth ^ n")
      case True
      with 2(4) have "hi \<le> y" by simp
      with double_1_1_gt_1 have "hi * double_1_1 \<le> y * double_1_1" by simp
      with ovf have "dround (y * double_1_1) = PInf" by blast
      then show ?thesis by (simp add: d grown_to_def)
    next
      case False
      then have below: "r0 * growth ^ n < hi" by simp
      with 2(4) have yn: "r0 * growth ^ n \<le> y" by simp
      from below 2(5) have all: "\<forall>m<Suc n. r0 * growth ^ m < hi"
        by (auto simp: less_Suc_eq)
      show ?thesis
      proof (cases "y * double_1_1 \<le> hi")
        case True
        from r0(1) 2(3) have "lo \<le> y" by simp
        from rounded_product_increases [OF b this True] obtain z where
          z: "dround (y * double_1_1) = Fin z" "y * growth \<le> z" "y < z" by blast
        from p z(1) have "dround z = Fin z" by blast
        moreover from 2(3) z(3) have "r0 \<le> z" by simp
        moreover have "min hi (r0 * growth ^ Suc n) \<le> z"
        proof -
          from yn growth_gt_1 have "r0 * growth ^ n * growth \<le> y * growth" by simp
          with z(2) have "r0 * growth ^ Suc n \<le> z" by (simp add: mult_ac)
          then show ?thesis by simp
        qed
        ultimately show ?thesis using z(1) all by (simp add: d grown_to_def)
      next
        case False
        then have "hi \<le> y * double_1_1" by simp
        with m top have j: "jge (dround (y * double_1_1)) (Fin hi)" by metis
        show ?thesis
        proof (cases "dround (y * double_1_1)")
          case (Fin z)
          with j have hz: "hi \<le> z" by simp
          moreover from p Fin have "dround z = Fin z" by blast
          moreover from hz r0(2) have "r0 \<le> z" by simp
          moreover from hz have "min hi (r0 * growth ^ Suc n) \<le> z" by simp
          ultimately show ?thesis using Fin all by (simp add: d grown_to_def)
        next
          case PInf
          then show ?thesis by (simp add: d grown_to_def)
        next
          case NInf
          with j show ?thesis by simp
        next
          case NaN
          with j show ?thesis by simp
        qed
      qed
    qed
  qed
qed

lemma run_operations_grown_to:
  assumes b: "binary64_like dround lo hi" and r0: "lo \<le> r0" "r0 \<le> hi"
  shows "grown_to dround hi r0 n (adaptationRate (traits agent)) \<Longrightarrow>
    grown_to dround hi r0 (n + fst (run_operations fround dround token w agent ops))
      (adaptationRate (traits (snd (snd (run_operations fround dround token w agent ops)))))"
proof (induction ops arbitrary: w agent n)
  case Nil
  then show ?case by simp
next
  case (Cons x xs)
  obtain c w1 a1 where a: "apply_operation fround dround token w agent x = (c, w1, a1)"
    by (cases "apply_operation fround dround token w agent x")
  from apply_operation_traits [of fround dround token w agent x] a
  have r1: "adaptationRate (traits a1) =
      (if c then dmul dround (adaptationRate (traits agent)) (Fin double_1_1)
       else adaptationRate (traits agent))" by simp
  have "grown_to dround hi r0 (n + (if c then 1 else 0)) (adaptationRate (traits a1))"
    using Cons.prems grown_to_step [OF b r0 Cons.prems] r1 by simp
  from Cons.IH [OF this, of w1] show ?case by (simp add: a split_beta add.assoc)
qed

lemma grown_to_overflow:
  assumes "grown_to dround hi r0 n a" and "hi \<le> r0 * growth ^ k" and "k < n"
  shows "a = PInf"
  using assms unfolding grown_to_def by (auto simp: not_less [symmetric])

lemma rate_reaches_infinity:
  assumes b: "binary64_like dround lo hi" and r: "lo \<le> r" "r \<le> hi" "dround r = Fin r"
    and a: "adaptationRate (traits agent) = Fin r"
  shows "\<exists>N. \<forall>xs. N \<le> fst (run_operations fround dround token w agent xs) \<longrightarrow>
      adaptationRate (traits (snd (snd (run_operations fround dround token w agent xs)))) = PInf"
proof -
  from b r(1) have rp: "0 < r" unfolding binary64_like_def by simp
  obtain k where k: "hi / r < growth ^ k"
    using real_arch_pow [OF growth_gt_1, of "hi / r"] by blast
  with rp have big: "hi \<le> r * growth ^ k"
    by (simp add: pos_divide_less_eq mult.commute less_imp_le)
  have start: "grown_to dround hi r 0 (adaptationRate (traits agent))"
    using a r by (simp add: grown_to_def)
  have "adaptationRate (traits (snd (snd (run_operations fround dround token w agent xs)))) = PInf"
    if "Suc k \<le> fst (run_operations fround dround token w agent xs)" for xs
  proof -
    from run_operations_grown_to [OF b r(1,2) start, of fround token w xs]
    have "grown_to dround hi r (fst (run_operations fround dround token w agent xs))
      (adaptationRate (traits (snd (snd (run_operations fround dround token w agent xs)))))"
      by simp
    from grown_to_overflow [OF this big] that show ?thesis by simp
  qed
  then show ?thesis by blast
qed

lemma rne_of_int: "rne (of_int n) = n"
  by (simp add: rne_def)

lemma rne_bounds: "of_int (rne q) - 1 / 2 \<le> q \<and> q \<le> of_int (rne q) + 1 / 2"
  unfolding rne_def Let_def by (auto; linarith)

lemma rne_mono:
  assumes "q \<le> q'"
  shows "rne q \<le> rne q'"
proof (cases "\<lfloor>q\<rfloor> = \<lfloor>q'\<rfloor>")
  case True
  with assms show ?thesis unfolding rne_def Let_def by auto
next
  case False
  with assms have "\<lfloor>q\<rfloor> < \<lfloor>q'\<rfloor>" using floor_mono [of q q'] by linarith
  moreover have "rne q \<le> \<lfloor>q\<rfloor> + 1" unfolding rne_def Let_def by auto
  moreover have "\<lfloor>q'\<rfloor> \<le> rne q'" unfolding rne_def Let_def by auto
  ultimately show ?thesis by linarith
qed

lemma rne_le: "q \<le> of_int n \<Longrightarrow> rne q \<le> n"
  using rne_mono [of q "of_int n"] by (simp add: rne_of_int)

lemma rne_ge: "of_int n \<le> q \<Longrightarrow> n \<le> rne q"
  using rne_mono [of "of_int n" q] by (simp add: rne_of_int)

lemma exp_search_spec:
  "e \<le> exp_search x e k \<and> exp_search x e k \<le> e + int k
   \<and> (e < exp_search x e k \<longrightarrow> power_int 2 (exp_search x e k) \<le> x)
   \<and> (exp_search x e k < e + int k \<longrightarrow> x < power_int 2 (exp_search x e k + 1))"
proof (induction k arbitrary: e)
  case 0
  show ?case by simp
next
  case (Suc k)
  show ?case
  proof (cases "power_int 2 (e + 1) \<le> x")
    case True
    let ?r = "exp_search x (e + 1) k"
    from Suc.IH [of "e + 1"] have ih: "e + 1 \<le> ?r" "?r \<le> e + 1 + int k"
      "e + 1 < ?r \<longrightarrow> power_int 2 ?r \<le> x"
      "?r < e + 1 + int k \<longrightarrow> x < power_int 2 (?r + 1)" by blast+
    have "power_int 2 ?r \<le> x"
    proof (cases "e + 1 < ?r")
      case True
      with ih(3) show ?thesis by blast
    next
      case False
      with ih(1) have "?r = e + 1" by simp
      with \<open>power_int 2 (e + 1) \<le> x\<close> show ?thesis by simp
    qed
    with ih True show ?thesis by simp
  next
    case False
    then show ?thesis by simp
  qed
qed

lemma b64_exponent_spec:
  "- 1022 \<le> b64_exponent x \<and> b64_exponent x \<le> 1023
   \<and> (- 1022 < b64_exponent x \<longrightarrow> power_int 2 (b64_exponent x) \<le> x)
   \<and> (b64_exponent x < 1023 \<longrightarrow> x < power_int 2 (b64_exponent x + 1))"
  using exp_search_spec [of "- 1022" x 2045] unfolding b64_exponent_def by simp

lemma b64_exponent_eq:
  assumes "- 1022 \<le> e" "e \<le> 1023"
    and "- 1022 < e \<longrightarrow> power_int 2 e \<le> x"
    and "e < 1023 \<longrightarrow> x < power_int 2 (e + 1)"
  shows "b64_exponent x = e"
proof (rule ccontr)
  assume ne: "b64_exponent x \<noteq> e"
  note s = b64_exponent_spec [of x]
  show False
  proof (cases "b64_exponent x < e")
    case True
    with assms s have "power_int 2 e \<le> x" "x < power_int 2 (b64_exponent x + 1)" by auto
    moreover from True have "power_int (2::real) (b64_exponent x + 1) \<le> power_int 2 e"
      by (intro power_int_increasing) auto
    ultimately show False by linarith
  next
    case False
    with ne have lt: "e < b64_exponent x" by simp
    with assms s have "power_int 2 (b64_exponent x) \<le> x" "x < power_int 2 (e + 1)" by auto
    moreover from lt have "power_int (2::real) (e + 1) \<le> power_int 2 (b64_exponent x)"
      by (intro power_int_increasing) auto
    ultimately show False by linarith
  qed
qed

lemma b64_exponent_mono:
  assumes "x \<le> y"
  shows "b64_exponent x \<le> b64_exponent y"
proof (rule ccontr)
  assume "\<not> b64_exponent x \<le> b64_exponent y"
  then have lt: "b64_exponent y < b64_exponent x" by simp
  note sx = b64_exponent_spec [of x] and sy = b64_exponent_spec [of y]
  from lt sx sy have "power_int 2 (b64_exponent x) \<le> x" "y < power_int 2 (b64_exponent y + 1)"
    by auto
  moreover from lt have "power_int (2::real) (b64_exponent y + 1) \<le> power_int 2 (b64_exponent x)"
    by (intro power_int_increasing) auto
  ultimately show False using assms by linarith
qed

lemma ulp_pos: "0 < power_int (2::real) e"
  by simp

lemma pow2_split: "power_int (2::real) (e + k) = power_int 2 e * power_int 2 k"
  by (rule power_int_add) simp

lemma pow2_succ52: "power_int (2::real) (e + 1) = 2 ^ 53 * power_int 2 (e - 52)"
proof -
  have "e + 1 = 53 + (e - 52)" by simp
  then have "power_int (2::real) (e + 1) = power_int 2 (53 + (e - 52))" by (rule arg_cong)
  also have "\<dots> = power_int 2 53 * power_int 2 (e - 52)" by (rule power_int_add) simp
  finally show ?thesis by simp
qed

lemma pow2_52: "power_int (2::real) e = 2 ^ 52 * power_int 2 (e - 52)"
proof -
  have "e = 52 + (e - 52)" by simp
  then have "power_int (2::real) e = power_int 2 (52 + (e - 52))" by (rule arg_cong)
  also have "\<dots> = power_int 2 52 * power_int 2 (e - 52)" by (rule power_int_add) simp
  finally show ?thesis by simp
qed

lemma b64_value_nonneg:
  assumes "0 \<le> x"
  shows "0 \<le> b64_value x"
proof -
  from assms have "of_int 0 \<le> x / power_int 2 (b64_exponent x - 52)" by simp
  from rne_ge [OF this] show ?thesis by (simp add: b64_value_def)
qed

lemma b64_value_upper:
  assumes "0 \<le> x" "b64_exponent x < 1023"
  shows "b64_value x \<le> power_int 2 (b64_exponent x + 1)"
proof -
  let ?e = "b64_exponent x"
  let ?u = "power_int (2::real) (?e - 52)"
  from b64_exponent_spec [of x] assms(2) have "x < power_int 2 (?e + 1)" by blast
  then have "x \<le> 2 ^ 53 * ?u" by (simp add: pow2_succ52)
  then have "x / ?u \<le> of_int (2 ^ 53)" by (simp add: pos_divide_le_eq)
  from rne_le [OF this] have "of_int (rne (x / ?u)) \<le> (2 ^ 53 :: real)"
    by (metis of_int_le_iff of_int_numeral of_int_power)
  then have "of_int (rne (x / ?u)) * ?u \<le> 2 ^ 53 * ?u"
    by (intro mult_right_mono) simp_all
  then show ?thesis by (simp add: b64_value_def pow2_succ52)
qed

lemma b64_exponent_le:
  assumes "b64_min_normal \<le> x"
  shows "power_int 2 (b64_exponent x) \<le> x"
proof (cases "- 1022 < b64_exponent x")
  case True
  with b64_exponent_spec [of x] show ?thesis by blast
next
  case False
  with b64_exponent_spec [of x] have "b64_exponent x = - 1022" by simp
  with assms show ?thesis by (simp only: b64_min_normal_def)
qed

lemma b64_value_lower:
  assumes "power_int 2 (b64_exponent x) \<le> x"
  shows "power_int 2 (b64_exponent x) \<le> b64_value x"
proof -
  let ?e = "b64_exponent x"
  let ?u = "power_int (2::real) (?e - 52)"
  from assms have "2 ^ 52 * ?u \<le> x" using pow2_52 [of ?e] by simp
  then have "of_int (2 ^ 52) \<le> x / ?u" by (simp add: pos_le_divide_eq)
  from rne_ge [OF this] have "(2 ^ 52 :: real) \<le> of_int (rne (x / ?u))"
    by (metis of_int_le_iff of_int_numeral of_int_power)
  then have "2 ^ 52 * ?u \<le> of_int (rne (x / ?u)) * ?u"
    by (intro mult_right_mono) simp_all
  then show ?thesis using pow2_52 [of ?e] by (simp add: b64_value_def)
qed

lemma b64_value_mono:
  assumes "0 \<le> x" "x \<le> y"
  shows "b64_value x \<le> b64_value y"
proof (cases "b64_exponent x = b64_exponent y")
  case True
  let ?u = "power_int (2::real) (b64_exponent y - 52)"
  from assms(2) have "x / ?u \<le> y / ?u" by (simp add: divide_right_mono)
  from rne_mono [OF this] have "(of_int (rne (x / ?u)) :: real) \<le> of_int (rne (y / ?u))" by simp
  then have "of_int (rne (x / ?u)) * ?u \<le> of_int (rne (y / ?u)) * ?u"
    by (intro mult_right_mono) simp_all
  with True show ?thesis by (simp add: b64_value_def)
next
  case False
  with b64_exponent_mono [OF assms(2)] have lt: "b64_exponent x < b64_exponent y" by simp
  with b64_exponent_spec [of y] have x1023: "b64_exponent x < 1023"
    and ey: "power_int 2 (b64_exponent y) \<le> y"
    using b64_exponent_spec [of x] by auto
  from b64_value_upper [OF assms(1) x1023]
  have "b64_value x \<le> power_int 2 (b64_exponent x + 1)" .
  also from lt have "\<dots> \<le> power_int 2 (b64_exponent y)"
    by (intro power_int_increasing) auto
  also from b64_value_lower [OF ey] have "\<dots> \<le> b64_value y" .
  finally show ?thesis .
qed

lemma b64_value_fix:
  assumes "v = of_int n * power_int 2 (b64_exponent v - 52)"
  shows "b64_value v = v"
proof -
  let ?u = "power_int (2::real) (b64_exponent v - 52)"
  from assms have "v / ?u = of_int n" by (simp add: nonzero_divide_eq_eq)
  then have "rne (v / ?u) = n" by (simp add: rne_of_int)
  with assms show ?thesis by (simp add: b64_value_def)
qed

lemma b64_value_idem:
  assumes "0 \<le> x"
  shows "b64_value (b64_value x) = b64_value x"
proof -
  let ?e = "b64_exponent x"
  let ?n = "rne (x / power_int 2 (?e - 52))"
  let ?v = "b64_value x"
  let ?ev = "b64_exponent ?v"
  have v: "?v = of_int ?n * power_int 2 (?e - 52)" by (simp add: b64_value_def)
  show ?thesis
  proof (cases "?ev \<le> ?e")
    case True
    have "?e - 52 = (?e - ?ev) + (?ev - 52)" by simp
    then have "power_int (2::real) (?e - 52) = power_int 2 ((?e - ?ev) + (?ev - 52))"
      by (rule arg_cong)
    also have "\<dots> = power_int 2 (?e - ?ev) * power_int 2 (?ev - 52)"
      by (rule power_int_add) simp
    also from True have "power_int (2::real) (?e - ?ev) = of_int (2 ^ nat (?e - ?ev))"
      by (simp add: power_int_nonneg_exp)
    finally have "?v = of_int (?n * 2 ^ nat (?e - ?ev)) * power_int 2 (?ev - 52)"
      using v by simp
    then show ?thesis by (rule b64_value_fix)
  next
    case False
    then have lt: "?e < ?ev" by simp
    with b64_exponent_spec [of x] b64_exponent_spec [of ?v]
    have e1023: "?e < 1023" and lo: "power_int 2 ?ev \<le> ?v" by auto
    from b64_value_upper [OF assms e1023] have up: "?v \<le> power_int 2 (?e + 1)" .
    from lt have "power_int (2::real) (?e + 1) \<le> power_int 2 ?ev"
      by (intro power_int_increasing) auto
    with lo up have eq: "?v = power_int 2 ?ev" by linarith
    then have "?v = of_int (2 ^ 52) * power_int 2 (?ev - 52)"
      using pow2_52 [of ?ev] by simp
    then show ?thesis by (rule b64_value_fix)
  qed
qed

lemma b64_value_err:
  assumes "b64_min_normal \<le> x"
  shows "\<bar>b64_value x - x\<bar> \<le> x / 2 ^ 53"
proof -
  let ?e = "b64_exponent x"
  let ?u = "power_int (2::real) (?e - 52)"
  let ?n = "rne (x / ?u)"
  from rne_bounds [of "x / ?u"] have "\<bar>of_int ?n - x / ?u\<bar> \<le> 1 / 2" by linarith
  then have "\<bar>of_int ?n - x / ?u\<bar> * ?u \<le> 1 / 2 * ?u"
    by (intro mult_right_mono) simp_all
  moreover have "\<bar>of_int ?n - x / ?u\<bar> * ?u = \<bar>of_int ?n * ?u - x\<bar>"
  proof -
    have "\<bar>of_int ?n - x / ?u\<bar> * ?u = \<bar>(of_int ?n - x / ?u) * ?u\<bar>"
      by (simp add: abs_mult)
    also have "(of_int ?n - x / ?u) * ?u = of_int ?n * ?u - x"
      by (simp add: left_diff_distrib)
    finally show ?thesis .
  qed
  ultimately have "\<bar>b64_value x - x\<bar> \<le> ?u / 2" by (simp add: b64_value_def)
  also have "?u / 2 = power_int 2 ?e / 2 ^ 53" using pow2_52 [of ?e] by simp
  also from b64_exponent_le [OF assms] have "\<dots> \<le> x / 2 ^ 53"
    by (simp add: divide_right_mono)
  finally show ?thesis .
qed

lemma b64_exponent_top:
  assumes "power_int 2 1023 \<le> x"
  shows "b64_exponent x = 1023"
  using assms by (intro b64_exponent_eq) simp_all

lemma b64_max_eq: "b64_max = of_int (2 ^ 53 - 1) * power_int 2 (1023 - 52)"
  by (simp add: b64_max_def)

lemma b64_max_ge: "power_int 2 1023 \<le> b64_max"
proof -
  have "power_int (2::real) 1023 = 2 ^ 52 * power_int 2 971" using pow2_52 [of 1023] by simp
  also have "\<dots> \<le> (2 ^ 53 - 1) * power_int 2 971" by (intro mult_right_mono) simp_all
  finally show ?thesis by (simp only: b64_max_def)
qed

lemma b64_max_lt: "b64_max < 2 ^ 1024"
proof -
  have "(2 ^ 53 - 1) * power_int (2::real) 971 < 2 ^ 53 * power_int 2 971"
    by (intro mult_strict_right_mono) simp_all
  also have "\<dots> = power_int 2 (1023 + 1)" by (simp only: pow2_succ52) simp
  finally show ?thesis by (simp add: b64_max_def)
qed

lemma b64_value_max: "b64_value b64_max = b64_max"
proof (rule b64_value_fix)
  from b64_exponent_top [OF b64_max_ge]
  show "b64_max = of_int (2 ^ 53 - 1) * power_int 2 (b64_exponent b64_max - 52)"
    by (simp only: b64_max_eq)
qed

lemma b64_value_finite:
  assumes "0 \<le> x" "x \<le> b64_max"
  shows "b64_value x < 2 ^ 1024"
proof -
  from b64_value_mono [OF assms] have "b64_value x \<le> b64_max" by (simp only: b64_value_max)
  with b64_max_lt show ?thesis by linarith
qed

lemma b64_value_overflow:
  assumes "b64_max * double_1_1 \<le> x"
  shows "2 ^ 1024 \<le> b64_value x"
proof -
  have "b64_max \<le> b64_max * double_1_1"
    using double_1_1_gt_1 b64_max_ge ulp_pos [of 1023] by (simp add: mult_le_cancel_left1)
  with assms b64_max_ge have "power_int 2 1023 \<le> x" by linarith
  from b64_exponent_top [OF this] have e: "b64_exponent x = 1023" .
  have "(2 ^ 53 :: real) \<le> (2 ^ 53 - 1) * double_1_1" by (simp add: double_1_1_def)
  then have "2 ^ 53 * power_int 2 971 \<le> (2 ^ 53 - 1) * double_1_1 * power_int 2 971"
    by (intro mult_right_mono) simp_all
  also have "\<dots> = b64_max * double_1_1" by (simp add: b64_max_def)
  finally have "2 ^ 53 * power_int 2 971 \<le> x" using assms by linarith
  then have "of_int (2 ^ 53) \<le> x / power_int 2 971" by (simp add: pos_le_divide_eq)
  from rne_ge [OF this] have "(2 ^ 53 :: real) \<le> of_int (rne (x / power_int 2 971))"
    by (metis of_int_le_iff of_int_numeral of_int_power)
  then have "2 ^ 53 * power_int (2::real) 971
      \<le> of_int (rne (x / power_int 2 971)) * power_int 2 971"
    by (intro mult_right_mono) simp_all
  moreover have "(2 ^ 53 :: real) * power_int 2 971 = 2 ^ 1024"
    using pow2_succ52 [of 1023] by simp
  ultimately show ?thesis by (simp add: b64_value_def e)
qed

lemma binary64_mono:
  assumes "x \<le> y"
  shows "jge (binary64 y) (binary64 x)"
proof (cases "0 \<le> x")
  case True
  with assms have y: "0 \<le> y" by simp
  from b64_value_mono [OF True assms] show ?thesis using True y by (simp add: binary64_def)
next
  case False
  then have nx: "0 \<le> - x" by simp
  show ?thesis
  proof (cases "0 \<le> y")
    case True
    from b64_value_nonneg [OF nx] b64_value_nonneg [OF True] False True
    show ?thesis by (simp add: binary64_def)
  next
    case False
    then have ny: "0 \<le> - y" by simp
    from assms have "- y \<le> - x" by simp
    from b64_value_mono [OF ny this] \<open>\<not> 0 \<le> x\<close> False
    show ?thesis by (simp add: binary64_def)
  qed
qed

lemma binary64_idem:
  assumes "binary64 x = Fin y"
  shows "binary64 y = Fin y"
proof (cases "0 \<le> x")
  case True
  with assms have y: "y = b64_value x" "b64_value x < 2 ^ 1024"
    by (simp_all add: binary64_def split: if_splits)
  from b64_value_nonneg [OF True] b64_value_idem [OF True] y
  show ?thesis by (simp add: binary64_def)
next
  case False
  then have nx: "0 \<le> - x" by simp
  from False assms have y: "y = - b64_value (- x)" "b64_value (- x) < 2 ^ 1024"
    by (simp_all add: binary64_def split: if_splits)
  show ?thesis
  proof (cases "b64_value (- x) = 0")
    case True
    have "b64_value 0 = 0" by (simp add: b64_value_def rne_def)
    with True y show ?thesis by (simp add: binary64_def)
  next
    case False
    with b64_value_nonneg [OF nx] have "0 < b64_value (- x)" by simp
    with y b64_value_idem [OF nx] show ?thesis by (simp add: binary64_def)
  qed
qed

lemma binary64_like_binary64: "binary64_like binary64 b64_min_normal b64_max"
  unfolding binary64_like_def
proof (intro conjI allI impI)
  show "0 < b64_min_normal" by (simp add: b64_min_normal_def)
  have "b64_min_normal \<le> power_int 2 1023"
    unfolding b64_min_normal_def by (intro power_int_increasing) simp_all
  with b64_max_ge show "b64_min_normal \<le> b64_max" by linarith
  show "jge (binary64 y) (binary64 x)" if "x \<le> y" for x y
    using that by (rule binary64_mono)
  show "binary64 y = Fin y" if "binary64 x = Fin y" for x y
    using that by (rule binary64_idem)
  show "\<exists>y. binary64 x = Fin y \<and> \<bar>y - x\<bar> \<le> x / 2 ^ 53"
    if "b64_min_normal \<le> x \<and> x \<le> b64_max" for x
  proof -
    have "0 < b64_min_normal" by (simp add: b64_min_normal_def)
    with that have x0: "0 \<le> x" by linarith
    from that b64_value_finite [OF x0] b64_value_err [of x] x0
    show ?thesis by (simp add: binary64_def)
  qed
  have "0 \<le> b64_max" using b64_max_ge ulp_pos [of 1023] by linarith
  with b64_max_lt show "binary64 b64_max = Fin b64_max"
    by (simp add: binary64_def b64_value_max)
  show "binary64 x = PInf" if "b64_max * double_1_1 \<le> x" for x
  proof -
    have "0 \<le> b64_max" using b64_max_ge ulp_pos [of 1023] by linarith
    with double_1_1_gt_1 have "0 \<le> b64_max * double_1_1" by simp
    with that have "0 \<le> x" by linarith
    with b64_value_overflow [OF that] show ?thesis by (simp add: binary64_def)
  qed
qed

lemma binary64_eval:
  assumes "0 \<le> x" "- 1022 \<le> e" "e \<le> 1023"
    and "- 1022 < e \<longrightarrow> power_int 2 e \<le> x"
    and "e < 1023 \<longrightarrow> x < power_int 2 (e + 1)"
    and "rne (x / power_int 2 (e - 52)) = n"
    and "of_int n * power_int 2 (e - 52) = y"
    and "y < 2 ^ 1024"
  shows "binary64 x = Fin y"
proof -
  from b64_exponent_eq [OF assms(2-5)] have "b64_exponent x = e" .
  with assms(1,6,7,8) show ?thesis by (simp add: binary64_def b64_value_def)
qed


lemma binary64_0: "binary64 0 = Fin 0"
  by (rule binary64_eval [where e = "- 1022" and n = 0]) (simp_all add: rne_def)

lemma binary64_double_0_1: "binary64 double_0_1 = Fin double_0_1"
  by (rule binary64_eval [where e = "- 4" and n = 7205759403792794])
     (simp_all add: double_0_1_def rne_def power_int_minus)

lemma binary64_0_1_times_1_1:
  "binary64 (double_0_1 * double_1_1) = Fin (3963167672086037 / 36028797018963968)"
  by (rule binary64_eval [where e = "- 4" and n = 7926335344172074])
     (simp_all add: double_0_1_def double_1_1_def rne_def power_int_minus)

lemma binary64_least_subnormal:
  "binary64 (power_int 2 (- 1074) * double_1_1) = Fin (power_int 2 (- 1074))"
  by (rule binary64_eval [where e = "- 1022" and n = 1])
     (simp_all add: double_1_1_def rne_def power_int_minus)

lemma parse_hello: "parseIntentToCognitive ''hello'' =
   \<lparr>domain = ''general'', task = ''respond'', precision = Medium, realtime = False, complexity = 5\<rparr>"
  by code_simp

lemma processIntent_hello_completes:
  "\<not> isl (fst (processIntent fround dround token w agent ''hello'' ctx))"
  by (rule processIntent_direct_completes) (simp add: parse_hello)

lemma run_hello_count:
  "fst (run_operations fround dround token w agent (replicate n (ProcessIntent ''hello'' []))) = n"
proof (induction n arbitrary: w agent)
  case 0
  show ?case by simp
next
  case (Suc n)
  obtain r w1 a1 where p: "processIntent fround dround token w agent ''hello'' [] = (r, w1, a1)"
    by (cases "processIntent fround dround token w agent ''hello'' []")
  with processIntent_hello_completes [of fround dround token w agent "[]"] have "\<not> isl r" by simp
  with p Suc.IH [of w1 a1] show ?case by (simp add: split_beta)
qed

text \<open>C9 (as stated, refuted): with adaptationRate 0 a call of processIntent completes and
  leaves the rate at 0 (0 * 1.1 is 0); the rate after the call is not greater than the rate
  before it. The same happens with the least positive double, 2 to the -1074: its product
  with 1.1 rounds back to it.\<close>

theorem adaptationRate_growth_counterexample:
  "\<not> isl (fst (processIntent id binary64 mock_token mock_world
          (mock_agent\<lparr>traits := mockTraits\<lparr>adaptationRate := Fin 0\<rparr>\<rparr>) ''hello'' []))
   \<and> \<not> jgt (adaptationRate (traits (snd (snd (processIntent id binary64 mock_token mock_world
          (mock_agent\<lparr>traits := mockTraits\<lparr>adaptationRate := Fin 0\<rparr>\<rparr>) ''hello'' [])))))
        (adaptationRate (traits (mock_agent\<lparr>traits := mockTraits\<lparr>adaptationRate := Fin 0\<rparr>\<rparr>)))
   \<and> \<not> isl (fst (processIntent id binary64 mock_token mock_world
          (mock_agent\<lparr>traits := mockTraits\<lparr>adaptationRate := Fin (power_int 2 (- 1074))\<rparr>\<rparr>)
          ''hello'' []))
   \<and> \<not> jgt (adaptationRate (traits (snd (snd (processIntent id binary64 mock_token mock_world
          (mock_agent\<lparr>traits := mockTraits\<lparr>adaptationRate := Fin (power_int 2 (- 1074))\<rparr>\<rparr>)
          ''hello'' [])))))
        (adaptationRate (traits (mock_agent\<lparr>traits :=
          mockTraits\<lparr>adaptationRate := Fin (power_int 2 (- 1074))\<rparr>\<rparr>)))"
proof -
  define s :: real where "s = power_int 2 (- 1074)"
  have bs: "binary64 (s * double_1_1) = Fin s"
    unfolding s_def by (rule binary64_least_subnormal)
  let ?a = "mock_agent\<lparr>traits := mockTraits\<lparr>adaptationRate := Fin 0\<rparr>\<rparr>"
  let ?b = "mock_agent\<lparr>traits := mockTraits\<lparr>adaptationRate := Fin s\<rparr>\<rparr>"
  have ca: "\<not> isl (fst (processIntent id binary64 mock_token mock_world ?a ''hello'' []))"
    by (rule processIntent_hello_completes)
  have cb: "\<not> isl (fst (processIntent id binary64 mock_token mock_world ?b ''hello'' []))"
    by (rule processIntent_hello_completes)
  from processIntent_frame [of id binary64 mock_token mock_world ?a "''hello''" "[]"] ca
  have ra: "adaptationRate (traits (snd (snd (processIntent id binary64 mock_token mock_world ?a
          ''hello'' [])))) = Fin 0"
    by (simp add: dmul_Fin binary64_0)
  from processIntent_frame [of id binary64 mock_token mock_world ?b "''hello''" "[]"] cb
  have rb: "adaptationRate (traits (snd (snd (processIntent id binary64 mock_token mock_world ?b
          ''hello'' [])))) = Fin s"
    by (simp add: dmul_Fin bs)
  from ca cb ra rb have
    "\<not> isl (fst (processIntent id binary64 mock_token mock_world ?a ''hello'' []))
     \<and> \<not> jgt (adaptationRate (traits (snd (snd (processIntent id binary64 mock_token mock_world
            ?a ''hello'' []))))) (adaptationRate (traits ?a))
     \<and> \<not> isl (fst (processIntent id binary64 mock_token mock_world ?b ''hello'' []))
     \<and> \<not> jgt (adaptationRate (traits (snd (snd (processIntent id binary64 mock_token mock_world
            ?b ''hello'' []))))) (adaptationRate (traits ?b))"
    by simp
  then show ?thesis unfolding s_def .
qed

text \<open>C9 (amended): the rate is a double, and a product of doubles is rounded. The
  rounding is the parameter \<open>dround\<close>, of which only the properties in \<open>binary64_like\<close>
  are used, with \<open>lo\<close> the least normal and \<open>hi\<close> the greatest double; \<open>binary64\<close> has
  them. Every completed call of processIntent replaces adaptationRate by the rounded product
  of the rate and the double 1.1 (the success figure of the Adapt phase is the constant
  0.85, so the factor 1.2 is never taken), and no other operation changes it. A stored
  non-negative rate never decreases through any sequence of calls. A completed call
  increases the rate strictly when the rate and its product with 1.1 lie in the normal
  range. From a stored rate in the normal range the rate is Infinity once enough calls have
  completed, and it stays there; calls that complete exist in any number. Of the other two
  traits, creativity is not above 1 after performSelfModification and stays so, and
  precision is changed by no operation; evolveTraits caps at 1 whichever of the two it
  updates.\<close>

theorem adaptationRate_growth:
  "adaptationRate (traits (snd (snd (apply_operation fround dround token w agent x)))) =
     (if fst (apply_operation fround dround token w agent x)
      then dmul dround (adaptationRate (traits agent)) (Fin double_1_1)
      else adaptationRate (traits agent))
   \<and> (binary64_like dround lo hi \<and> adaptationRate (traits agent) = Fin r \<and> 0 \<le> r
        \<and> dround r = Fin r
      \<longrightarrow> jge (adaptationRate (traits (snd (snd (run_operations fround dround token w agent ops)))))
              (Fin r))
   \<and> (binary64_like dround lo hi \<and> adaptationRate (traits agent) = Fin r \<and> lo \<le> r
        \<and> r * double_1_1 \<le> hi \<and> \<not> isl (fst (processIntent fround dround token w agent t ctx))
      \<longrightarrow> jgt (adaptationRate (traits (snd (snd (processIntent fround dround token w agent t ctx)))))
              (Fin r))
   \<and> (binary64_like dround lo hi \<and> adaptationRate (traits agent) = Fin r \<and> lo \<le> r \<and> r \<le> hi
        \<and> dround r = Fin r
      \<longrightarrow> (\<exists>N. \<forall>xs. N \<le> fst (run_operations fround dround token w agent xs) \<longrightarrow>
             adaptationRate (traits (snd (snd (run_operations fround dround token w agent xs))))
               = PInf))
   \<and> fst (run_operations fround dround token w agent (replicate n (ProcessIntent ''hello'' []))) = n
   \<and> \<not> jgt (creativity (traits (snd (performSelfModification dround agent)))) (Fin 1)
   \<and> trait_precision (traits (snd (snd (run_operations fround dround token w agent ops))))
       = trait_precision (traits agent)
   \<and> (\<not> jgt (creativity (traits agent)) (Fin 1) \<longrightarrow>
        \<not> jgt (creativity (traits (snd (snd (run_operations fround dround token w agent ops)))))
            (Fin 1))
   \<and> (repoSpawnSuccess perf > 9 / 10 \<longrightarrow>
        \<not> jgt (creativity (traits (snd (evolveTraits dround agent perf)))) (Fin 1))
   \<and> (responseTime perf > 500 \<longrightarrow>
        \<not> jgt (trait_precision (traits (snd (evolveTraits dround agent perf)))) (Fin 1))
   \<and> binary64_like binary64 b64_min_normal b64_max"
proof (intro conjI impI)
  show "adaptationRate (traits (snd (snd (apply_operation fround dround token w agent x)))) =
     (if fst (apply_operation fround dround token w agent x)
      then dmul dround (adaptationRate (traits agent)) (Fin double_1_1)
      else adaptationRate (traits agent))"
    using apply_operation_traits [of fround dround token w agent x] by blast
next
  assume h: "binary64_like dround lo hi \<and> adaptationRate (traits agent) = Fin r \<and> 0 \<le> r
        \<and> dround r = Fin r"
  then have "stored_at_least dround r (adaptationRate (traits agent))"
    by (simp add: stored_at_least_def)
  with h run_operations_stored_at_least [of dround lo hi r agent fround token w ops]
  have "stored_at_least dround r
      (adaptationRate (traits (snd (snd (run_operations fround dround token w agent ops)))))"
    by blast
  then show "jge (adaptationRate (traits (snd (snd (run_operations fround dround token w agent ops)))))
              (Fin r)"
    by (rule stored_at_least_jge)
next
  assume h: "binary64_like dround lo hi \<and> adaptationRate (traits agent) = Fin r \<and> lo \<le> r
        \<and> r * double_1_1 \<le> hi \<and> \<not> isl (fst (processIntent fround dround token w agent t ctx))"
  with rounded_product_increases [of dround lo hi r] obtain z where
    z: "dround (r * double_1_1) = Fin z" "r < z" by blast
  from h processIntent_frame [of fround dround token w agent t ctx]
  have "adaptationRate (traits (snd (snd (processIntent fround dround token w agent t ctx))))
      = dmul dround (Fin r) (Fin double_1_1)" by simp
  with z show "jgt (adaptationRate (traits (snd (snd (processIntent fround dround token w agent t ctx)))))
              (Fin r)"
    by (simp add: dmul_Fin)
next
  assume h: "binary64_like dround lo hi \<and> adaptationRate (traits agent) = Fin r \<and> lo \<le> r \<and> r \<le> hi
        \<and> dround r = Fin r"
  then show "\<exists>N. \<forall>xs. N \<le> fst (run_operations fround dround token w agent xs) \<longrightarrow>
             adaptationRate (traits (snd (snd (run_operations fround dround token w agent xs))))
               = PInf"
    using rate_reaches_infinity [of dround lo hi r agent fround token w] by blast
next
  show "fst (run_operations fround dround token w agent (replicate n (ProcessIntent ''hello'' []))) = n"
    by (rule run_hello_count)
next
  show "\<not> jgt (creativity (traits (snd (performSelfModification dround agent)))) (Fin 1)"
    by (simp add: performSelfModification_frame jmin_cap)
next
  show "trait_precision (traits (snd (snd (run_operations fround dround token w agent ops))))
       = trait_precision (traits agent)"
    using run_operations_caps [of fround dround token w agent ops] by blast
next
  assume "\<not> jgt (creativity (traits agent)) (Fin 1)"
  then show "\<not> jgt (creativity (traits (snd (snd (run_operations fround dround token w agent ops)))))
            (Fin 1)"
    using run_operations_caps [of fround dround token w agent ops] by blast
next
  assume "repoSpawnSuccess perf > 9 / 10"
  then show "\<not> jgt (creativity (traits (snd (evolveTraits dround agent perf)))) (Fin 1)"
    by (simp add: evolveTraits_def Let_def split_beta jmin_cap)
next
  assume "responseTime perf > 500"
  then show "\<not> jgt (trait_precision (traits (snd (evolveTraits dround agent perf)))) (Fin 1)"
    by (simp add: evolveTraits_def Let_def split_beta jmin_cap)
next
  show "binary64_like binary64 b64_min_normal b64_max"
    by (rule binary64_like_binary64)
qed

theorem adaptationRate_growth_witness:
  "binary64_like binary64 b64_min_normal b64_max
   \<and> adaptationRate (traits mock_agent) = Fin double_0_1
   \<and> binary64 double_0_1 = Fin double_0_1
   \<and> b64_min_normal \<le> double_0_1 \<and> double_0_1 * double_1_1 \<le> b64_max
   \<and> \<not> isl (fst (processIntent id binary64 mock_token mock_world mock_agent ''hello'' []))
   \<and> jgt (adaptationRate (traits (snd (snd
          (processIntent id binary64 mock_token mock_world mock_agent ''hello'' [])))))
        (Fin double_0_1)
   \<and> adaptationRate (traits (snd (snd (apply_operation id binary64 mock_token mock_world
          mock_agent (ProcessIntent ''hello'' [])))))
       = Fin (3963167672086037 / 36028797018963968)
   \<and> jge (adaptationRate (traits (snd (snd (run_operations id binary64 mock_token mock_world
          mock_agent [ProcessIntent ''hello'' [], PerformSelfModification])))))
        (Fin double_0_1)
   \<and> \<not> jgt (creativity (traits (snd (performSelfModification binary64 mock_agent)))) (Fin 1)"
proof -
  have r: "adaptationRate (traits mock_agent) = Fin double_0_1"
    by (simp add: mock_agent_def mockTraits_def)
  have c: "\<not> isl (fst (processIntent id binary64 mock_token mock_world mock_agent ''hello'' []))"
    by (rule processIntent_hello_completes)
  have c': "fst (apply_operation id binary64 mock_token mock_world mock_agent
      (ProcessIntent ''hello'' []))"
    using c by (simp add: split_beta)
  note d = binary64_double_0_1
  have lo: "b64_min_normal \<le> double_0_1" "0 \<le> double_0_1"
    by (simp_all add: b64_min_normal_def double_0_1_def power_int_minus)
  have hi: "double_0_1 * double_1_1 \<le> b64_max"
    by (simp add: b64_max_def double_0_1_def double_1_1_def)
  note g = adaptationRate_growth [of id binary64 mock_token mock_world mock_agent
      "ProcessIntent ''hello'' []" b64_min_normal b64_max double_0_1
      "[ProcessIntent ''hello'' [], PerformSelfModification]" "''hello''" "[]" 0 analyzePerformance]
  from g have b: "binary64_like binary64 b64_min_normal b64_max" by blast
  from g c' have "adaptationRate (traits (snd (snd (apply_operation id binary64 mock_token
      mock_world mock_agent (ProcessIntent ''hello'' [])))))
      = dmul binary64 (adaptationRate (traits mock_agent)) (Fin double_1_1)"
    by simp
  then have v: "adaptationRate (traits (snd (snd (apply_operation id binary64 mock_token
      mock_world mock_agent (ProcessIntent ''hello'' [])))))
      = Fin (3963167672086037 / 36028797018963968)"
    by (simp only: r dmul_Fin binary64_0_1_times_1_1)
  from g b r c d lo hi v show ?thesis by blast
qed

section \<open>Persona agent: embeddings outside the context window\<close>

lemma after_orient_memory:
  "embedding_keys (after_orient fround w agent t ctx) =
     (if length (contextWindow (ragMemory agent) @ ctx) > 100
      then (embedding_keys agent \<union> set ctx)
           - set (take (length (contextWindow (ragMemory agent) @ ctx) - 50)
                   (contextWindow (ragMemory agent) @ ctx))
      else embedding_keys agent \<union> set ctx)"
  "contextWindow (ragMemory (after_orient fround w agent t ctx)) =
     (if length (contextWindow (ragMemory agent) @ ctx) > 100
      then drop (length (contextWindow (ragMemory agent) @ ctx) - 50)
             (contextWindow (ragMemory agent) @ ctx)
      else contextWindow (ragMemory agent) @ ctx)"
  unfolding after_orient_def by (simp_all add: orient_memory)

lemma processIntent_keys:
  assumes "k \<in> embedding_keys agent"
    and "k \<notin> embedding_keys (snd (snd (processIntent fround dround token w agent t ctx)))"
  shows "100 < length (contextWindow (ragMemory agent) @ ctx)
     \<and> k \<in> set (take (length (contextWindow (ragMemory agent) @ ctx) - 50)
                   (contextWindow (ragMemory agent) @ ctx))"
proof -
  from processIntent_frame [of fround dround token w agent t ctx] assms(2)
  have "k \<notin> embedding_keys (after_orient fround w agent t ctx)" by blast
  with assms(1) show ?thesis
    by (simp add: after_orient_memory(1) split: if_splits)
qed

lemma processIntent_window_subset:
  "set (contextWindow (ragMemory (snd (snd (processIntent fround dround token w agent t ctx)))))
     \<subseteq> set (contextWindow (ragMemory agent)) \<union> set ctx"
proof -
  let ?win = "contextWindow (ragMemory agent) @ ctx"
  have "set (contextWindow (ragMemory (after_orient fround w agent t ctx))) \<subseteq> set ?win"
  proof (cases "100 < length ?win")
    case True
    then have "contextWindow (ragMemory (after_orient fround w agent t ctx))
        = drop (length ?win - 50) ?win"
      by (simp only: after_orient_memory(2) if_True)
    then show ?thesis by (simp only: set_drop_subset)
  next
    case False
    then have "contextWindow (ragMemory (after_orient fround w agent t ctx)) = ?win"
      by (simp only: after_orient_memory(2) if_False)
    then show ?thesis by simp
  qed
  with processIntent_frame [of fround dround token w agent t ctx] show ?thesis by simp
qed

lemma apply_operation_keeps:
  assumes "k \<in> embedding_keys agent" and "k \<notin> set (contextWindow (ragMemory agent))"
    and "k \<notin> set (op_context x)"
  shows "k \<in> embedding_keys (snd (snd (apply_operation fround dround token w agent x)))
     \<and> k \<notin> set (contextWindow (ragMemory (snd (snd (apply_operation fround dround token w agent x)))))"
proof (cases x)
  case (ProcessIntent t ctx)
  have "k \<notin> set (take n (contextWindow (ragMemory agent) @ ctx))" for n
    using assms(2,3) ProcessIntent set_take_subset [of n "contextWindow (ragMemory agent) @ ctx"]
    by auto
  with processIntent_keys [OF assms(1), of fround dround token w t ctx]
  have "k \<in> embedding_keys (snd (snd (processIntent fround dround token w agent t ctx)))" by blast
  moreover from processIntent_window_subset [of fround dround token w agent t ctx] assms(2,3) ProcessIntent
  have "k \<notin> set (contextWindow (ragMemory (snd (snd (processIntent fround dround token w agent t ctx)))))"
    by auto
  ultimately show ?thesis using ProcessIntent by (simp add: split_beta)
next
  case (SpawnRepository request)
  with spawnRepository_frame [of fround token w agent request] assms
  show ?thesis by (auto simp: split_beta)
next
  case (RetrieveFromRAG query maxResults)
  with assms show ?thesis by (simp add: split_beta retrieveFromRAG_agent)
next
  case PerformSelfModification
  with assms show ?thesis by (simp add: performSelfModification_frame)
qed

lemma run_operations_keeps:
  assumes "k \<in> embedding_keys agent" and "k \<notin> set (contextWindow (ragMemory agent))"
    and "k \<notin> set (concat (map op_context ops))"
  shows "k \<in> embedding_keys (snd (snd (run_operations fround dround token w agent ops)))
     \<and> k \<notin> set (contextWindow (ragMemory (snd (snd (run_operations fround dround token w agent ops)))))"
  using assms
proof (induction ops arbitrary: w agent)
  case Nil
  then show ?case by simp
next
  case (Cons x xs)
  obtain c w1 a1 where a: "apply_operation fround dround token w agent x = (c, w1, a1)"
    by (cases "apply_operation fround dround token w agent x")
  from Cons.prems have "k \<notin> set (op_context x)" "k \<notin> set (concat (map op_context xs))" by auto
  with apply_operation_keeps [OF Cons.prems(1,2), of x fround dround token w] a
  have "k \<in> embedding_keys a1" "k \<notin> set (contextWindow (ragMemory a1))" by simp_all
  from Cons.IH [OF this \<open>k \<notin> set (concat (map op_context xs))\<close>, of w1]
  show ?case by (simp add: a split_beta)
qed

lemma generateEmbedding_clock: "clock (snd (generateEmbedding fround w t)) = clock w"
  by (simp add: generateEmbedding_def)

lemma generateEmbeddings_clock: "clock (snd (generateEmbeddings fround w ctx)) = clock w"
proof (induction ctx arbitrary: w)
  case Nil
  show ?case by simp
next
  case (Cons c cs)
  from Cons.IH [of "snd (generateEmbedding fround w c)"] show ?case
    by (simp add: split_beta generateEmbedding_clock)
qed

lemma insert_context_clock: "clock (fst (insert_context fround w m ctx)) = clock w"
proof (induction ctx arbitrary: w m)
  case Nil
  show ?case by simp
next
  case (Cons c cs)
  from Cons.IH [of "snd (generateEmbedding fround w c)"] show ?case
    by (simp add: split_beta generateEmbedding_clock)
qed

lemma orient_clock:
  "clock (fst (orientCognitiveModel fround w agent ci ctx)) = (\<lambda>i. clock w (Suc i))"
  by (simp add: orientCognitiveModel_def Let_def split_beta insert_context_clock date_now_def
      generateEmbeddings_clock)

lemma decide_clock:
  "clock (fst (snd (decideResponseStrategy w agent ci))) = (\<lambda>i. clock w (Suc i))"
  by (simp add: decideResponseStrategy_def Let_def split_beta date_now_def)

lemma keys_update: "fst ` set (AList.update k v al) = insert k (fst ` set al)"
  by (simp add: dom_update)

lemma updateRAGMemory_key:
  assumes "resp \<noteq> []"
  shows "clock (fst (snd (updateRAGMemory fround w agent resp))) = (\<lambda>i. clock w (Suc i))
     \<and> embedding_keys (snd (snd (updateRAGMemory fround w agent resp)))
         = insert (''execution:'' @ show_nat (clock w 0)) (embedding_keys agent)"
  using assms
  by (simp add: updateRAGMemory_def Let_def split_beta date_now_def generateEmbedding_clock
      keys_update)

lemma generateDirectResponse_nonempty: "generateDirectResponse agent d \<noteq> []"
  by (simp add: generateDirectResponse_def)

lemma executeDecision_direct_key:
  assumes "\<not> shouldSpawnRepo d"
  shows "clock (fst (snd (executeDecision fround token w agent d))) = (\<lambda>i. clock w (Suc (Suc i)))
     \<and> embedding_keys (snd (snd (executeDecision fround token w agent d)))
         = insert (''execution:'' @ show_nat (clock w 1)) (embedding_keys agent)"
  using assms
    updateRAGMemory_key [OF generateDirectResponse_nonempty, of fround "snd (date_now w)" agent agent d]
  by (simp add: executeDecision_def Let_def split_beta date_now_def)

lemma adaptSelfModel_clock:
  "clock (fst (snd (adaptSelfModel dround w agent res))) = (\<lambda>i. clock w (Suc i))"
  by (simp add: adaptSelfModel_def analyzeResultSuccess_def Let_def split_beta date_now_def)

lemma processIntent_direct_key:
  assumes "\<not> (boltIntegration (traits agent)
      \<and> (task (parseIntentToCognitive t) = ''creation''
          \<or> domain (parseIntentToCognitive t) = ''development'')
      \<and> complexity (parseIntentToCognitive t) > 6)"
  shows "clock (fst (snd (processIntent fround dround token w agent t ctx)))
       = (\<lambda>i. clock w (i + 6))
     \<and> embedding_keys (snd (snd (processIntent fround dround token w agent t ctx)))
       = insert (''execution:'' @ show_nat (clock w 4))
           (embedding_keys (after_orient fround w agent t ctx))"
proof -
  let ?ci = "parseIntentToCognitive t"
  let ?a1 = "agent\<lparr>oodaLoop := (oodaLoop agent)\<lparr>observe :=
                     Some \<lparr>observed_intent = t, observed_context = ctx,
                           observed_cognitiveIntent = ?ci,
                           observed_timestamp = fst (date_now w)\<rparr>\<rparr>\<rparr>"
  obtain w2 a2 where o: "orientCognitiveModel fround (snd (date_now w)) ?a1 ?ci ctx = (w2, a2)"
    by (cases "orientCognitiveModel fround (snd (date_now w)) ?a1 ?ci ctx")
  obtain d w3 a3 where dd: "decideResponseStrategy w2 a2 ?ci = (d, w3, a3)"
    by (cases "decideResponseStrategy w2 a2 ?ci")
  obtain r w4 a4 where e: "executeDecision fround token w3 a3 d = (r, w4, a4)"
    by (cases "executeDecision fround token w3 a3 d")
  have a2: "a2 = after_orient fround w agent t ctx"
    by (simp add: after_orient_def o)
  have c2: "clock w2 = (\<lambda>i. clock w (i + 2))"
  proof -
    have "clock (fst (orientCognitiveModel fround (snd (date_now w)) ?a1 ?ci ctx))
        = (\<lambda>i. clock (snd (date_now w)) (Suc i))"
      by (rule orient_clock)
    then have "clock w2 = (\<lambda>i. clock (snd (date_now w)) (Suc i))" by (simp add: o)
    then show ?thesis by (simp add: date_now_def eval_nat_numeral)
  qed
  have "traits a2 = traits agent"
    using orient_frame [of fround "snd (date_now w)" "?a1" "?ci" ctx] by (simp add: o)
  with assms decide_shouldSpawnRepo [of w2 a2 "?ci"] dd have ns: "\<not> shouldSpawnRepo d" by simp
  have c3: "clock w3 = (\<lambda>i. clock w (i + 3))"
    using decide_clock [of w2 a2 ?ci] by (simp add: dd c2 eval_nat_numeral)
  have m3: "ragMemory a3 = ragMemory a2"
    using decide_frame [of w2 a2 ?ci] by (simp add: dd)
  have c4: "clock w4 = (\<lambda>i. clock w (i + 5))"
    and k4: "embedding_keys a4 = insert (''execution:'' @ show_nat (clock w 4)) (embedding_keys a2)"
    using executeDecision_direct_key [OF ns, of fround token w3 a3] by (simp_all add: e c3 m3 eval_nat_numeral)
  from executeDecision_direct_completes [OF ns, of fround token w3 a3] e
  obtain res where r: "r = Inr res" by (cases r) simp_all
  have p: "processIntent fround dround token w agent t ctx =
        (Inr \<lparr>intent_response = response res, intent_spawnedRepos = result_spawnedRepos res,
              intent_memoryUpdates = memoryUpdates res,
              intent_adaptations = fst (adaptSelfModel dround w4 a4 res)\<rparr>,
         fst (snd (adaptSelfModel dround w4 a4 res)), snd (snd (adaptSelfModel dround w4 a4 res)))"
    by (simp add: processIntent_def Let_def split_beta o dd e r)
  from adaptSelfModel_clock [of dround w4 a4 res] adaptSelfModel_frame [of dround w4 a4 res]
  show ?thesis by (simp add: p c4 k4 a2 eval_nat_numeral)
qed

lemma show_nat_1004: "show_nat 1004 = ''1004''"
  by (simp add: show_nat.simps digit_char_def)

lemma show_nat_1010: "show_nat 1010 = ''1010''"
  by (simp add: show_nat.simps digit_char_def)

lemma run_operations_append:
  "snd (run_operations fround dround token w agent (xs @ ys)) =
     snd (run_operations fround dround token
            (fst (snd (run_operations fround dround token w agent xs)))
            (snd (snd (run_operations fround dround token w agent xs))) ys)"
proof (induction xs arbitrary: w agent)
  case Nil
  show ?case by simp
next
  case (Cons x xs)
  from Cons.IH [of "fst (snd (apply_operation fround dround token w agent x))"
      "snd (snd (apply_operation fround dround token w agent x))"]
  show ?case by (simp add: split_beta)
qed

lemma apply_operation_window_subset:
  "set (contextWindow (ragMemory (snd (snd (apply_operation fround dround token w agent x)))))
     \<subseteq> set (contextWindow (ragMemory agent)) \<union> set (op_context x)"
proof (cases x)
  case (ProcessIntent t ctx)
  with processIntent_window_subset [of fround dround token w agent t ctx]
  show ?thesis by (simp add: split_beta)
next
  case (SpawnRepository request)
  with spawnRepository_frame [of fround token w agent request]
  show ?thesis by (simp add: split_beta)
next
  case (RetrieveFromRAG query maxResults)
  then show ?thesis by (simp add: split_beta retrieveFromRAG_agent)
next
  case PerformSelfModification
  then show ?thesis by (simp add: performSelfModification_frame)
qed

lemma run_operations_window_subset:
  "set (contextWindow (ragMemory (snd (snd (run_operations fround dround token w agent ops)))))
     \<subseteq> set (contextWindow (ragMemory agent)) \<union> set (concat (map op_context ops))"
proof (induction ops arbitrary: w agent)
  case Nil
  show ?case by simp
next
  case (Cons x xs)
  obtain c w1 a1 where a: "apply_operation fround dround token w agent x = (c, w1, a1)"
    by (cases "apply_operation fround dround token w agent x")
  from apply_operation_window_subset [of fround dround token w agent x] a
  have s1: "set (contextWindow (ragMemory a1))
      \<subseteq> set (contextWindow (ragMemory agent)) \<union> set (op_context x)" by simp
  from Cons.IH [of w1 a1] s1 show ?case by (auto simp: a split_beta)
qed

lemma run_operations_grows:
  assumes "k \<notin> set (contextWindow (ragMemory agent))"
    and "k \<notin> set (concat (map op_context (xs @ ys)))"
    and "k \<in> embedding_keys (snd (snd (run_operations fround dround token w agent xs)))"
  shows "k \<in> embedding_keys (snd (snd (run_operations fround dround token w agent (xs @ ys))))"
proof -
  let ?w1 = "fst (snd (run_operations fround dround token w agent xs))"
  let ?a1 = "snd (snd (run_operations fround dround token w agent xs))"
  from assms(1,2) run_operations_window_subset [of fround dround token w agent xs]
  have "k \<notin> set (contextWindow (ragMemory ?a1))" by auto
  moreover from assms(2) have "k \<notin> set (concat (map op_context ys))" by simp
  ultimately have "k \<in> embedding_keys (snd (snd (run_operations fround dround token ?w1 ?a1 ys)))"
    using run_operations_keeps [OF assms(3), of ys fround dround token ?w1] by blast
  then show ?thesis by (simp only: run_operations_append)
qed

lemma hello_direct:
  "\<not> (boltIntegration (traits agent)
      \<and> (task (parseIntentToCognitive ''hello'') = ''creation''
          \<or> domain (parseIntentToCognitive ''hello'') = ''development'')
      \<and> complexity (parseIntentToCognitive ''hello'') > 6)"
  by (simp add: parse_hello)

lemma first_hello:
  "embedding_keys (snd (snd (processIntent id binary64 mock_token mock_world mock_agent ''hello'' [])))
     = {''execution:1004''}
   \<and> contextWindow (ragMemory (snd (snd
        (processIntent id binary64 mock_token mock_world mock_agent ''hello'' [])))) = []
   \<and> clock (fst (snd (processIntent id binary64 mock_token mock_world mock_agent ''hello'' [])))
     = (\<lambda>i. 1000 + (i + 6))"
  using processIntent_direct_key [OF hello_direct, of id binary64 mock_token mock_world mock_agent "[]"]
    processIntent_frame [of id binary64 mock_token mock_world mock_agent "''hello''" "[]"]
  by (simp add: after_orient_memory mock_agent_def initializeRAGMemory_def mock_world_def
      show_nat_1004)

lemma second_hello:
  assumes "embedding_keys agent = {''execution:1004''}"
    and "contextWindow (ragMemory agent) = []"
    and "clock w = (\<lambda>i. 1000 + (i + 6))"
  shows "embedding_keys (snd (snd (processIntent id binary64 mock_token w agent ''hello''
            (''execution:1004'' # replicate 100 ''x'')))) = {''execution:1010''}"
  using processIntent_direct_key [OF hello_direct, of id binary64 mock_token w agent
      "''execution:1004'' # replicate 100 ''x''"] assms
  by (simp add: after_orient_memory show_nat_1010)

text \<open>C10 (as stated, refuted): the first call stores its result under the key
  execution:1004, which is not in the context window. A second call that is handed this
  key as a context string, followed by a hundred others, puts the key into the window and
  evicts it again, and the embedding is deleted with it.\<close>

theorem embeddings_outside_window_kept_counterexample:
  "''execution:1004'' \<in> embedding_keys (snd (snd (run_operations id binary64 mock_token mock_world
        mock_agent [ProcessIntent ''hello'' []])))
   \<and> ''execution:1004'' \<notin> set (contextWindow (ragMemory (snd (snd (run_operations id binary64
        mock_token mock_world mock_agent [ProcessIntent ''hello'' []])))))
   \<and> ''execution:1004'' \<notin> embedding_keys (snd (snd (run_operations id binary64 mock_token mock_world
        mock_agent [ProcessIntent ''hello'' [],
                    ProcessIntent ''hello'' (''execution:1004'' # replicate 100 ''x'')])))"
proof -
  let ?p = "processIntent id binary64 mock_token mock_world mock_agent ''hello'' []"
  from first_hello have f: "embedding_keys (snd (snd ?p)) = {''execution:1004''}"
    "contextWindow (ragMemory (snd (snd ?p))) = []"
    "clock (fst (snd ?p)) = (\<lambda>i. 1000 + (i + 6))" by blast+
  from second_hello [OF f]
  have "embedding_keys (snd (snd (processIntent id binary64 mock_token (fst (snd ?p)) (snd (snd ?p))
          ''hello'' (''execution:1004'' # replicate 100 ''x'')))) = {''execution:1010''}" .
  with f(1,2) show ?thesis by (simp add: split_beta)
qed

text \<open>C10 (amended): an embedding that a call of processIntent removes is one whose key the
  eviction has just cut off the context window; spawnRepository, retrieveFromRAG and
  performSelfModification remove none. The window holds only strings that were in it at
  the start or were handed to a call as context strings. So a key that is in the
  embeddings map, is not in the window and is not among the context strings of later calls
  stays in the map, and out of the window, through every sequence of calls; and a key that
  is neither in the window at the start nor among the context strings of any call stays in
  the map from the moment it is stored. The keys the agent generates for execution
  results, spawned repositories and self-model entries are kept under this condition, not
  otherwise.\<close>

theorem embeddings_outside_window_kept:
  "(k \<in> embedding_keys agent
      \<and> k \<notin> embedding_keys (snd (snd (processIntent fround dround token w agent t ctx)))
    \<longrightarrow> 100 < length (contextWindow (ragMemory agent) @ ctx)
        \<and> k \<in> set (take (length (contextWindow (ragMemory agent) @ ctx) - 50)
                      (contextWindow (ragMemory agent) @ ctx)))
   \<and> embedding_keys agent \<subseteq> embedding_keys (snd (snd (spawnRepository fround token w agent request)))
   \<and> embedding_keys (snd (snd (retrieveFromRAG fround w agent query maxResults))) = embedding_keys agent
   \<and> embedding_keys (snd (performSelfModification dround agent)) = embedding_keys agent
   \<and> (k \<in> embedding_keys agent \<and> k \<notin> set (contextWindow (ragMemory agent))
        \<and> k \<notin> set (concat (map op_context ops))
      \<longrightarrow> k \<in> embedding_keys (snd (snd (run_operations fround dround token w agent ops)))
          \<and> k \<notin> set (contextWindow (ragMemory (snd (snd (run_operations fround dround token w agent ops))))))
   \<and> set (contextWindow (ragMemory (snd (snd (run_operations fround dround token w agent ops)))))
       \<subseteq> set (contextWindow (ragMemory agent)) \<union> set (concat (map op_context ops))
   \<and> (k \<notin> set (contextWindow (ragMemory agent)) \<and> k \<notin> set (concat (map op_context (xs @ ys)))
        \<and> k \<in> embedding_keys (snd (snd (run_operations fround dround token w agent xs)))
      \<longrightarrow> k \<in> embedding_keys (snd (snd (run_operations fround dround token w agent (xs @ ys)))))"
  using processIntent_keys [of k agent fround dround token w t ctx]
    spawnRepository_frame [of fround token w agent request]
    run_operations_keeps [of k agent ops fround dround token w]
    run_operations_window_subset [of fround dround token w agent ops]
    run_operations_grows [of k agent xs ys fround dround token w]
  by (simp add: retrieveFromRAG_agent performSelfModification_frame)

theorem embeddings_outside_window_kept_witness:
  "''execution:999'' \<in> embedding_keys (mock_agent\<lparr>ragMemory := initializeRAGMemory\<lparr>embeddings :=
        [(''execution:999'', [1]), (''old'', [1])], contextWindow := replicate 100 ''old''\<rparr>\<rparr>)
   \<and> ''execution:999'' \<notin> set (contextWindow (ragMemory (mock_agent\<lparr>ragMemory :=
        initializeRAGMemory\<lparr>embeddings := [(''execution:999'', [1]), (''old'', [1])],
          contextWindow := replicate 100 ''old''\<rparr>\<rparr>)))
   \<and> ''execution:999'' \<notin> set (concat (map op_context [ProcessIntent ''hello'' [''new'']]))
   \<and> ''execution:999'' \<in> embedding_keys (snd (snd (run_operations id binary64 mock_token mock_world
        (mock_agent\<lparr>ragMemory := initializeRAGMemory\<lparr>embeddings :=
          [(''execution:999'', [1]), (''old'', [1])], contextWindow := replicate 100 ''old''\<rparr>\<rparr>)
        [ProcessIntent ''hello'' [''new'']])))
   \<and> ''execution:1004'' \<notin> set (contextWindow (ragMemory mock_agent))
   \<and> ''execution:1004'' \<notin> set (concat (map op_context
        ([ProcessIntent ''hello'' []] @ [ProcessIntent ''hello'' (replicate 101 ''x'')])))
   \<and> ''execution:1004'' \<in> embedding_keys (snd (snd (run_operations id binary64 mock_token mock_world
        mock_agent [ProcessIntent ''hello'' []])))
   \<and> ''execution:1004'' \<in> embedding_keys (snd (snd (run_operations id binary64 mock_token mock_world
        mock_agent ([ProcessIntent ''hello'' []] @ [ProcessIntent ''hello'' (replicate 101 ''x'')]))))"
proof -
  let ?a = "mock_agent\<lparr>ragMemory := initializeRAGMemory\<lparr>embeddings :=
        [(''execution:999'', [1]), (''old'', [1])], contextWindow := replicate 100 ''old''\<rparr>\<rparr>"
  have h1: "''execution:999'' \<in> embedding_keys ?a" by simp
  have h2: "''execution:999'' \<notin> set (contextWindow (ragMemory ?a))" by simp
  have h3: "''execution:999'' \<notin> set (concat (map op_context [ProcessIntent ''hello'' [''new'']]))"
    by simp
  from embeddings_outside_window_kept [of "''execution:999''" ?a id binary64 mock_token mock_world
      "''hello''" "[''new'']" _ _ _ "[ProcessIntent ''hello'' [''new'']]" "[]" "[]"] h1 h2 h3
  have c1: "''execution:999'' \<in> embedding_keys (snd (snd (run_operations id binary64 mock_token mock_world ?a
        [ProcessIntent ''hello'' [''new'']])))"
    by blast
  have g1: "''execution:1004'' \<notin> set (contextWindow (ragMemory mock_agent))"
    by (simp add: mock_agent_def initializeRAGMemory_def)
  have g2: "''execution:1004'' \<notin> set (concat (map op_context
        ([ProcessIntent ''hello'' []] @ [ProcessIntent ''hello'' (replicate 101 ''x'')])))"
    by simp
  have g3: "''execution:1004'' \<in> embedding_keys (snd (snd (run_operations id binary64 mock_token
        mock_world mock_agent [ProcessIntent ''hello'' []])))"
    using first_hello by (simp add: split_beta)
  from embeddings_outside_window_kept [of "''execution:1004''" mock_agent id binary64 mock_token
      mock_world "''hello''" "[]" _ _ _ "[]" "[ProcessIntent ''hello'' []]"
      "[ProcessIntent ''hello'' (replicate 101 ''x'')]"] g1 g2 g3
  have c2: "''execution:1004'' \<in> embedding_keys (snd (snd (run_operations id binary64 mock_token
        mock_world mock_agent
        ([ProcessIntent ''hello'' []] @ [ProcessIntent ''hello'' (replicate 101 ''x'')]))))"
    by blast
  from h1 h2 h3 c1 g1 g2 g3 c2 show ?thesis by blast
qed

section \<open>Persona agent: similarity and retrieval\<close>

lemma cosine_loop_short:
  "length b < length a \<Longrightarrow> \<exists>na. cosine_loop (d, Fin n, nb) a b = (NaN, Fin na, NaN)"
proof (induction a arbitrary: b d n nb)
  case Nil
  then show ?case by simp
next
  case (Cons x xs)
  show ?case
  proof (cases b)
    case Nil
    have "\<exists>na. cosine_loop (NaN, Fin m, NaN) xs [] = (NaN, Fin na, NaN)" for m
    proof (induction xs arbitrary: m)
      case Nil
      show ?case by simp
    next
      case (Cons y ys)
      from Cons [of "m + y * y"] show ?case by simp
    qed
    from this [of "n + x * x"] Nil show ?thesis by (cases d; cases nb) simp_all
  next
    case (Cons y ys)
    with Cons.prems have "length ys < length xs" by simp
    from Cons.IH [OF this, of "jadd d (jmul (Fin x) (Fin y))" "n + x * x" "jadd nb (jmul (Fin y) (Fin y))"] Cons
    show ?thesis by simp
  qed
qed

lemma cosine_loop_fin:
  "length a \<le> length b \<Longrightarrow>
   cosine_loop (Fin d, Fin na, Fin nb) a b =
     (Fin (d + sum_list (map2 (*) a b)),
      Fin (na + sum_list (map (\<lambda>x. x * x) a)),
      Fin (nb + sum_list (map (\<lambda>y. y * y) (take (length a) b))))"
proof (induction a arbitrary: b d na nb)
  case Nil
  show ?case by simp
next
  case (Cons x xs)
  then obtain y ys where b: "b = y # ys" by (cases b) auto
  with Cons.prems have "length xs \<le> length ys" by simp
  from Cons.IH [OF this, of "d + x * y" "na + x * x" "nb + y * y"] b
  show ?case by (simp add: algebra_simps)
qed

lemma cosineSimilarity_short:
  "length b < length a \<Longrightarrow> cosineSimilarity a b = NaN"
  using cosine_loop_short [of b a "Fin 0" 0 "Fin 0"]
  by (auto simp: cosineSimilarity_def)

lemma cosineSimilarity_fin:
  "length a \<le> length b \<Longrightarrow>
   cosineSimilarity a b =
     jdiv (Fin (sum_list (map2 (*) a b)))
          (Fin (sqrt (sum_list (map (\<lambda>x. x * x) a))
                * sqrt (sum_list (map (\<lambda>y. y * y) (take (length a) b)))))"
proof -
  assume l: "length a \<le> length b"
  have "sum_list (map (\<lambda>x. x * x) xs) \<ge> 0" for xs :: "real list"
    by (induction xs) simp_all
  then have "\<not> sum_list (map (\<lambda>x. x * x) xs) < 0" for xs :: "real list"
    by (simp add: not_less)
  then show ?thesis
    by (simp add: cosineSimilarity_def cosine_loop_fin [OF l])
qed

lemma sum_list_zero_left:
  "\<forall>x \<in> set a. x = (0::real) \<Longrightarrow> sum_list (map2 (*) a b) = 0"
  by (induction a arbitrary: b) (auto simp: zip_Cons1 split: list.splits)

lemma sum_list_zero_right:
  "\<forall>y \<in> set b. y = (0::real) \<Longrightarrow> sum_list (map2 (*) a b) = 0"
  by (induction a arbitrary: b) (auto simp: zip_Cons1 split: list.splits)

lemma sum_list_squares_zero:
  "\<forall>x \<in> set a. x = (0::real) \<Longrightarrow> sum_list (map (\<lambda>x. x * x) a) = 0"
  by (induction a) auto

lemma cosineSimilarity_zero:
  assumes "(\<forall>x \<in> set a. x = 0) \<or> (\<forall>y \<in> set b. y = 0)"
  shows "cosineSimilarity a b = NaN"
proof (cases "length b < length a")
  case True
  then show ?thesis by (rule cosineSimilarity_short)
next
  case False
  then have l: "length a \<le> length b" by simp
  from assms show ?thesis
  proof
    assume z: "\<forall>x \<in> set a. x = 0"
    show ?thesis
      by (simp add: cosineSimilarity_fin [OF l] sum_list_zero_left [OF z] sum_list_squares_zero [OF z])
  next
    assume z: "\<forall>y \<in> set b. y = 0"
    then have "\<forall>y \<in> set (take (length a) b). y = 0" by (auto dest: in_set_takeD)
    from sum_list_squares_zero [OF this] show ?thesis
      by (simp add: cosineSimilarity_fin [OF l] sum_list_zero_right [OF z])
  qed
qed

lemma rag_matches_sound:
  "r \<in> set (rag_matches q thr entries) \<Longrightarrow>
     \<exists>e. (content r, e) \<in> set entries \<and> relevance r = cosineSimilarity q e
        \<and> jgt (relevance r) (Fin thr)"
  by (induction q thr entries rule: rag_matches.induct) (auto simp: Let_def split: if_splits)

lemma set_insort_relevance: "set (insort_relevance x ys) = insert x (set ys)"
  by (induction ys) auto

lemma length_insort_relevance: "length (insort_relevance x ys) = Suc (length ys)"
  by (induction ys) auto

lemma set_sort_by_relevance: "set (sort_by_relevance rs) = set rs"
  unfolding sort_by_relevance_def by (induction rs) (auto simp: set_insort_relevance)

lemma jgt_not_NaN: "jgt a b \<Longrightarrow> a \<noteq> NaN \<and> b \<noteq> NaN"
  by (cases a; cases b) simp_all






lemma set_js_slice0: "set (js_slice0 xs n) \<subseteq> set xs"
  by (auto simp: js_slice0_def dest: in_set_takeD)



lemma retrieveFromRAG_results:
  "fst (fst (retrieveFromRAG fround w agent query maxResults)) =
     js_slice0 (sort_by_relevance (rag_matches (fst (generateEmbedding fround w query))
        (retrievalThreshold (ragMemory agent)) (embeddings (ragMemory agent)))) maxResults"
  by (simp add: retrieveFromRAG_def Let_def split_beta)

lemma rag_matches_nonzero:
  assumes "r \<in> set (rag_matches q thr entries)"
  shows "\<exists>e. (content r, e) \<in> set entries \<and> relevance r = cosineSimilarity q e
           \<and> (\<exists>x \<in> set e. x \<noteq> 0) \<and> (\<exists>x \<in> set q. x \<noteq> 0)"
proof -
  from rag_matches_sound [OF assms] obtain e where
    e: "(content r, e) \<in> set entries" "relevance r = cosineSimilarity q e"
      "jgt (relevance r) (Fin thr)" by blast
  from jgt_not_NaN [OF e(3)] e(2) have n: "cosineSimilarity q e \<noteq> NaN" by simp
  have "\<not> ((\<forall>x \<in> set q. x = 0) \<or> (\<forall>y \<in> set e. y = 0))"
  proof
    assume "(\<forall>x \<in> set q. x = 0) \<or> (\<forall>y \<in> set e. y = 0)"
    from cosineSimilarity_zero [OF this] n show False by simp
  qed
  then have "(\<exists>x \<in> set e. x \<noteq> 0) \<and> (\<exists>x \<in> set q. x \<noteq> 0)" by simp
  with e(1,2) show ?thesis by (intro exI [of _ e]) simp
qed

lemma retrieveFromRAG_query:
  "snd (fst (retrieveFromRAG fround w agent query maxResults)) = fst (generateEmbedding fround w query)"
  by (simp add: retrieveFromRAG_def Let_def split_beta)

lemma cosineSimilarity_replicate:
  fixes c :: real
  assumes "0 < n" "c \<noteq> 0"
  shows "cosineSimilarity (replicate n c) (replicate n c) = Fin 1"
proof -
  let ?X = "real n * (c * c)"
  have s: "sum_list (map2 (*) (replicate n c) (replicate n c)) = ?X"
    by (simp add: zip_replicate sum_list_replicate)
  have q: "sum_list (map (\<lambda>x. x * x) (replicate n c)) = ?X"
    by (simp add: sum_list_replicate)
  have t: "take (length (replicate n c)) (replicate n c) = replicate n c" by simp
  have pos: "0 < ?X" using assms by (auto simp: zero_less_mult_iff)
  then have r: "sqrt ?X * sqrt ?X = ?X" by simp
  have "cosineSimilarity (replicate n c) (replicate n c) = jdiv (Fin ?X) (Fin (sqrt ?X * sqrt ?X))"
    by (simp only: cosineSimilarity_fin [OF order_refl] t s q)
  also have "\<dots> = Fin 1" unfolding r using pos assms by simp
  finally show ?thesis .
qed

lemma generateEmbedding_constant:
  "fst (generateEmbedding id \<lparr>random = (\<lambda>i. c), clock = k\<rparr> q) = replicate 384 (c * 2 - 1)"
  by (simp add: generateEmbedding_def map_replicate_const)

lemma retrieve_two_entries:
  assumes a: "cosineSimilarity (fst (generateEmbedding fround w query)) z = NaN"
    and b: "cosineSimilarity (fst (generateEmbedding fround w query)) h = Fin 1"
    and c: "embeddings (ragMemory agent) = [(''zero'', z), (''half'', h)]"
    and d: "retrievalThreshold (ragMemory agent) = 7 / 10"
  shows "fst (fst (retrieveFromRAG fround w agent query 5))
     = [\<lparr>content = ''half'', relevance = Fin 1, source = ''memory-kernel''\<rparr>]"
proof -
  have s: "getEmbeddingSource ''half'' = ''memory-kernel''"
    by (simp add: getEmbeddingSource_def starts_with_def)
  have "rag_matches (fst (generateEmbedding fround w query)) (7 / 10) [(''zero'', z), (''half'', h)]
     = [\<lparr>content = ''half'', relevance = Fin 1, source = ''memory-kernel''\<rparr>]"
    by (simp add: a b s Let_def)
  then show ?thesis
    unfolding retrieveFromRAG_results c d
    by (simp add: sort_by_relevance_def js_slice0_def)
qed


lemma retrieve_example:
  "fst (fst (retrieveFromRAG id \<lparr>random = (\<lambda>i. 3 / 4), clock = (\<lambda>i. i)\<rparr>
      (mock_agent\<lparr>ragMemory := initializeRAGMemory\<lparr>embeddings :=
          [(''zero'', replicate 384 0), (''half'', replicate 384 (1 / 2))]\<rparr>\<rparr>) ''React component'' 5))
   = [\<lparr>content = ''half'', relevance = Fin 1, source = ''memory-kernel''\<rparr>]"
proof (rule retrieve_two_entries)
  have g: "fst (generateEmbedding id \<lparr>random = (\<lambda>i. 3 / 4), clock = (\<lambda>i. i)\<rparr> ''React component'')
      = replicate 384 (1 / 2)"
    by (simp only: generateEmbedding_constant) simp
  show "cosineSimilarity (fst (generateEmbedding id \<lparr>random = (\<lambda>i. 3 / 4), clock = (\<lambda>i. i)\<rparr>
      ''React component'')) (replicate 384 0) = NaN"
    by (rule cosineSimilarity_zero) simp
  show "cosineSimilarity (fst (generateEmbedding id \<lparr>random = (\<lambda>i. 3 / 4), clock = (\<lambda>i. i)\<rparr>
      ''React component'')) (replicate 384 (1 / 2)) = Fin 1"
    unfolding g by (rule cosineSimilarity_replicate) simp_all
  show "embeddings (ragMemory (mock_agent\<lparr>ragMemory := initializeRAGMemory\<lparr>embeddings :=
          [(''zero'', replicate 384 0), (''half'', replicate 384 (1 / 2))]\<rparr>\<rparr>))
      = [(''zero'', replicate 384 0), (''half'', replicate 384 (1 / 2))]"
    by simp
  show "retrievalThreshold (ragMemory (mock_agent\<lparr>ragMemory := initializeRAGMemory\<lparr>embeddings :=
          [(''zero'', replicate 384 0), (''half'', replicate 384 (1 / 2))]\<rparr>\<rparr>)) = 7 / 10"
    by (simp add: initializeRAGMemory_def)
qed

text \<open>C4 (as stated, refuted): nothing guards the division. The similarity of a zero vector
  and any vector is 0/0, which is NaN and not 0.\<close>

theorem zero_vector_similarity_counterexample:
  "cosineSimilarity [0, 0] [1, 2] \<noteq> Fin 0"
  by (simp add: cosineSimilarity_def)

text \<open>C4 (amended): when one of the two vectors is all zeros, cosineSimilarity returns NaN;
  NaN exceeds no threshold, so every entry that retrieveFromRAG returns is an entry of the
  map whose embedding is not a zero vector, and the query embedding is not one either, at
  any threshold.\<close>

theorem zero_vector_similarity:
  "((\<forall>x \<in> set a. x = 0) \<or> (\<forall>y \<in> set b. y = 0)
      \<longrightarrow> cosineSimilarity a b = NaN \<and> \<not> jgt (cosineSimilarity a b) (Fin thr))
   \<and> (\<forall>r \<in> set (fst (fst (retrieveFromRAG fround w agent query maxResults))).
        \<exists>e. (content r, e) \<in> set (embeddings (ragMemory agent))
           \<and> relevance r = cosineSimilarity (snd (fst (retrieveFromRAG fround w agent query maxResults))) e
           \<and> (\<exists>x \<in> set e. x \<noteq> 0)
           \<and> (\<exists>x \<in> set (snd (fst (retrieveFromRAG fround w agent query maxResults))). x \<noteq> 0))"
proof (intro conjI impI ballI)
  assume z: "(\<forall>x \<in> set a. x = 0) \<or> (\<forall>y \<in> set b. y = 0)"
  from cosineSimilarity_zero [OF z] show "cosineSimilarity a b = NaN" .
  then show "\<not> jgt (cosineSimilarity a b) (Fin thr)" by simp
next
  fix r
  assume "r \<in> set (fst (fst (retrieveFromRAG fround w agent query maxResults)))"
  then have "r \<in> set (sort_by_relevance (rag_matches (fst (generateEmbedding fround w query))
        (retrievalThreshold (ragMemory agent)) (embeddings (ragMemory agent))))"
    unfolding retrieveFromRAG_results by (rule subsetD [OF set_js_slice0])
  then have "r \<in> set (rag_matches (fst (generateEmbedding fround w query))
        (retrievalThreshold (ragMemory agent)) (embeddings (ragMemory agent)))"
    by (simp only: set_sort_by_relevance)
  from rag_matches_nonzero [OF this]
  show "\<exists>e. (content r, e) \<in> set (embeddings (ragMemory agent))
           \<and> relevance r = cosineSimilarity (snd (fst (retrieveFromRAG fround w agent query maxResults))) e
           \<and> (\<exists>x \<in> set e. x \<noteq> 0)
           \<and> (\<exists>x \<in> set (snd (fst (retrieveFromRAG fround w agent query maxResults))). x \<noteq> 0)"
    unfolding retrieveFromRAG_query .
qed

theorem zero_vector_similarity_witness:
  "cosineSimilarity [0, 0] [1, 2] = NaN
   \<and> \<not> jgt (cosineSimilarity [0, 0] [1, 2]) (Fin (7 / 10))
   \<and> fst (fst (retrieveFromRAG id \<lparr>random = (\<lambda>i. 3 / 4), clock = (\<lambda>i. i)\<rparr>
      (mock_agent\<lparr>ragMemory := initializeRAGMemory\<lparr>embeddings :=
          [(''zero'', replicate 384 0), (''half'', replicate 384 (1 / 2))]\<rparr>\<rparr>) ''React component'' 5))
     = [\<lparr>content = ''half'', relevance = Fin 1, source = ''memory-kernel''\<rparr>]"
proof -
  have "(\<forall>x \<in> set [0, 0 :: real]. x = 0) \<or> (\<forall>y \<in> set [1, 2 :: real]. y = 0)" by simp
  with zero_vector_similarity [of "[0, 0]" "[1, 2]" "7 / 10"]
  have "cosineSimilarity [0, 0] [1, 2] = NaN \<and> \<not> jgt (cosineSimilarity [0, 0] [1, 2]) (Fin (7 / 10))"
    by blast
  with retrieve_example show ?thesis by blast
qed




end
